theory Spec2Isabelle
  imports Complex_Main
begin

section \<open>The command-line driver of the compiler (src/tsc/tsc.ts)\<close>

text \<open>
  The driver is modelled by explicit state passing. Everything the driver does to the
  outside world (writing to the output stream, reporting a diagnostic, calling one of the
  collaborators that live outside \<^verbatim>\<open>tsc.ts\<close>, ending the process) is appended to a list
  of events; the functions of \<^verbatim>\<open>tsc.ts\<close> are state transformers. The collaborators
  themselves (argument parsing, configuration parsing, the compiler, the solution builder,
  the host \<^verbatim>\<open>sys\<close>) are fields of a record that every function takes as its first
  argument.

  Strings are lists of characters; a character stands for one UTF-16 code unit below 256,
  so \<open>length\<close> is the \<^verbatim>\<open>length\<close> of the JavaScript string.
\<close>

subsection \<open>Data\<close>

datatype ExitStatus =
  Success
| DiagnosticsPresent_OutputsSkipped
| DiagnosticsPresent_OutputsGenerated

text \<open>The diagnostic messages that \<^verbatim>\<open>tsc.ts\<close> names, and one constructor for those that
  the collaborators produce (identified by their code).\<close>

datatype DiagnosticMessage =
  Option_build_must_be_the_first_command_line_argument
| Option_project_cannot_be_mixed_with_source_files_on_a_command_line
| Cannot_find_a_tsconfig_json_file_at_the_specified_directory_Colon_0
| The_specified_path_does_not_exist_Colon_0
| The_current_host_does_not_support_the_0_option
| A_tsconfig_json_file_is_already_defined_at_Colon_0
| Successfully_created_a_tsconfig_json_file
| Message_of_collaborator nat

datatype Diagnostic = createCompilerDiagnostic DiagnosticMessage "string list"

text \<open>The options that the driver reads. A flag that the code only tests for truthiness is
  a \<open>bool\<close>; \<^verbatim>\<open>pretty\<close>, which the code compares with \<^verbatim>\<open>undefined\<close>, and the string-valued
  options are optional values. The fields \<^verbatim>\<open>locale\<close> and \<^verbatim>\<open>help\<close> carry a prime, the fields
  of the build options end in \<open>B\<close>, and the \<^verbatim>\<open>value\<close> of a statistic is \<open>val\<close>, since the
  plain names are taken.\<close>

record CompilerOptions =
  build :: bool
  locale' :: "string option"
  init :: bool
  version :: bool
  help' :: bool
  all :: bool
  project :: "string option"
  showConfig :: bool
  pretty :: "bool option"
  watch :: bool
  incremental :: bool
  diagnostics :: bool
  extendedDiagnostics :: bool
  configFilePath :: "string option"

record BuildOptions =
  helpB :: bool
  cleanB :: bool
  watchB :: bool
  prettyB :: "bool option"

datatype Options = OfCompiler CompilerOptions | OfBuild BuildOptions

fun prettyOf :: "Options \<Rightarrow> bool option" where
  "prettyOf (OfCompiler opts) = pretty opts"
| "prettyOf (OfBuild opts) = prettyB opts"

type_synonym ProjectReference = string

record ParsedCommandLine =
  options :: CompilerOptions
  fileNames :: "string list"
  projectReferences :: "ProjectReference list option"
  errors :: "Diagnostic list"

record CommandLineOption =
  optionName :: string
  showInSimplifiedHelpView :: bool

datatype Comparison = LessThan | EqualTo | GreaterThan

record Statistic =
  name :: string
  val :: string

record SourceFile =
  fileName :: string
  lineStarts :: "nat list"

record RelationCacheSizes =
  assignable :: nat
  identity :: nat
  subtype :: nat

record Program =
  getCompilerOptions :: CompilerOptions
  getSourceFiles :: "SourceFile list"
  getNodeCount :: nat
  getIdentifierCount :: nat
  getSymbolCount :: nat
  getTypeCount :: nat
  getRelationCacheSizes :: RelationCacheSizes

text \<open>A diagnostic reporter is identified by the order of its creation and carries the
  \<^verbatim>\<open>pretty\<close> flag it was created with.\<close>

datatype DiagnosticReporter = DiagnosticReporter (reporterId: nat) (isPretty: bool)

text \<open>What the process does, as seen from outside. A call of a collaborator carries the
  arguments that matter to its caller: the reporter handed over, and whether the status
  reporter is pretty or the error summary is present.\<close>

datatype event =
  Reported DiagnosticReporter Diagnostic
| Write string
| WriteFile string string
| PrintVersion
| PrintHelp "CommandLineOption list" "string option"
| Exit ExitStatus
| ParseCommandLine "string list"
| ParseBuildCommand "string list"
| ValidateLocaleAndSetLanguage string
| DirectoryExists string
| FileExists string
| FindConfigFile string
| ParseConfigFileWithSystem string CompilerOptions
| EmitFilesAndReportErrors Program DiagnosticReporter bool
| TsPerformIncrementalCompilation ParsedCommandLine DiagnosticReporter bool
| CreateWatchProgramOfConfigFile ParsedCommandLine CompilerOptions DiagnosticReporter bool
| CreateWatchProgramOfFilesAndCompilerOptions "string list" CompilerOptions DiagnosticReporter bool
| CreateSolutionBuilder "string list" BuildOptions DiagnosticReporter bool bool
| CreateSolutionBuilderWithWatch "string list" BuildOptions DiagnosticReporter bool bool
| BuildAllProjects
| CleanAllProjects
| StartWatching
| TypeError

text \<open>The state of the process: the reporter bound to the module-level variable
  \<^verbatim>\<open>reportDiagnostic\<close>, the number of reporters created so far, whether
  \<^verbatim>\<open>performance\<close> is enabled, the events so far (oldest first), and the exit status once
  \<^verbatim>\<open>sys.exit\<close> has been called.\<close>

record state =
  reportDiagnostic :: DiagnosticReporter
  reportersCreated :: nat
  performanceEnabled :: bool
  events :: "event list"
  exitCode :: "ExitStatus option"

text \<open>JavaScript numbers that are not counts (the durations, in milliseconds) are values of
  a type \<open>'n\<close> that the model does not look into; their arithmetic and their rendering
  are operations of the host.\<close>

record 'n host =
  \<comment> \<open>JavaScript numbers\<close>
  numAdd :: "'n \<Rightarrow> 'n \<Rightarrow> 'n"
  numDivide :: "'n \<Rightarrow> 'n \<Rightarrow> 'n"
  num1000 :: 'n
  toFixed :: "'n \<Rightarrow> nat \<Rightarrow> string"
  \<comment> \<open>\<^verbatim>\<open>JSON.stringify(convertToTSConfig(config, path, sys), null, indent)\<close>\<close>
  stringifyTSConfig :: "ParsedCommandLine \<Rightarrow> string \<Rightarrow> nat \<Rightarrow> string"
  \<comment> \<open>\<^verbatim>\<open>sys\<close>\<close>
  newLine :: string
  writeOutputIsTTY :: "bool option"
  getCurrentDirectory :: string
  directoryExists :: "string \<Rightarrow> bool"
  fileExists :: "string \<Rightarrow> bool"
  getMemoryUsage :: "int option"
  hasWatchFile :: bool
  hasWatchDirectory :: bool
  hasGetModifiedTime :: bool
  hasSetModifiedTime :: bool
  hasDeleteFile :: bool
  \<comment> \<open>\<^verbatim>\<open>performance\<close>\<close>
  getDuration :: "string \<Rightarrow> 'n"
  forEachMeasure :: "(string \<times> 'n) list"
  \<comment> \<open>the compiler's library\<close>
  parseCommandLine :: "string list \<Rightarrow> ParsedCommandLine"
  parseBuildCommand :: "string list \<Rightarrow> BuildOptions \<times> string list \<times> Diagnostic list"
  validateLocaleAndSetLanguage :: "string \<Rightarrow> Diagnostic list"
  normalizePath :: "string \<Rightarrow> string"
  combinePaths :: "string \<Rightarrow> string \<Rightarrow> string"
  findConfigFile :: "string \<Rightarrow> (string \<Rightarrow> bool) \<Rightarrow> string option"
  parseConfigFileWithSystem :: "string \<Rightarrow> CompilerOptions \<Rightarrow> ParsedCommandLine option"
  generateTSConfig :: "CompilerOptions \<Rightarrow> string list \<Rightarrow> string \<Rightarrow> string"
  isWatchSet :: "CompilerOptions \<Rightarrow> bool"
  isIncrementalCompilation :: "CompilerOptions \<Rightarrow> bool"
  optionDeclarations :: "CommandLineOption list"
  buildOpts :: "CommandLineOption list"
  sort' :: "CommandLineOption list \<Rightarrow> (CommandLineOption \<Rightarrow> CommandLineOption \<Rightarrow> Comparison)
    \<Rightarrow> CommandLineOption list"
  compareStringsCaseInsensitive :: "string \<Rightarrow> string \<Rightarrow> Comparison"
  createProgram :: "string list \<Rightarrow> ProjectReference list option \<Rightarrow> CompilerOptions
    \<Rightarrow> Diagnostic list option \<Rightarrow> Program"
  emitFilesAndReportErrors :: "Program \<Rightarrow> ExitStatus"
  tsPerformIncrementalCompilation :: "ParsedCommandLine \<Rightarrow> ExitStatus"
  getConfigFileParsingDiagnostics :: "ParsedCommandLine \<Rightarrow> Diagnostic list"
  buildAllProjects :: "string list \<Rightarrow> BuildOptions \<Rightarrow> ExitStatus"
  cleanAllProjects :: "string list \<Rightarrow> BuildOptions \<Rightarrow> ExitStatus"

subsection \<open>The host's effects\<close>

definition logEvent :: "event \<Rightarrow> state \<Rightarrow> state" where
  "logEvent e s = s\<lparr>events := events s @ [e]\<rparr>"

text \<open>\<^verbatim>\<open>sys.exit\<close> ends the process: the model records the status, and every caller stops
  there.\<close>

definition sysExit :: "ExitStatus \<Rightarrow> state \<Rightarrow> state" where
  "sysExit status s = (logEvent (Exit status) s)\<lparr>exitCode := Some status\<rparr>"

definition sysWrite :: "string \<Rightarrow> state \<Rightarrow> state" where
  "sysWrite text s = logEvent (Write text) s"

definition sysWriteFile :: "string \<Rightarrow> string \<Rightarrow> state \<Rightarrow> state" where
  "sysWriteFile path text s = logEvent (WriteFile path text) s"

definition printVersion :: "state \<Rightarrow> state" where
  "printVersion s = logEvent PrintVersion s"

definition printHelp :: "CommandLineOption list \<Rightarrow> string option \<Rightarrow> state \<Rightarrow> state" where
  "printHelp optionsList syntaxPrefix s = logEvent (PrintHelp optionsList syntaxPrefix) s"

text \<open>Truthiness of an optional string: \<^verbatim>\<open>undefined\<close> and the empty string are falsy.\<close>

definition truthy :: "string option \<Rightarrow> bool" where
  "truthy v = (case v of None \<Rightarrow> False | Some x \<Rightarrow> x \<noteq> [])"

subsection \<open>The diagnostic reporter (lines 15 to 31)\<close>

text \<open>\<^verbatim>\<open>createDiagnosticReporter(sys, pretty?)\<close>: a new reporter, pretty when the flag is
  truthy.\<close>

definition createDiagnosticReporter :: "bool option \<Rightarrow> state \<Rightarrow> DiagnosticReporter \<times> state" where
  "createDiagnosticReporter prettyFlag s =
     (DiagnosticReporter (reportersCreated s) (prettyFlag = Some True),
      s\<lparr>reportersCreated := Suc (reportersCreated s)\<rparr>)"

text \<open>The state in which \<^verbatim>\<open>executeCommandLine\<close> is called by the last line of the file:
  line 15 has bound \<^verbatim>\<open>reportDiagnostic\<close> to \<^verbatim>\<open>createDiagnosticReporter(sys)\<close>.\<close>

definition initialState :: state where
  "initialState =
     \<lparr>reportDiagnostic = DiagnosticReporter 0 False, reportersCreated = 1,
      performanceEnabled = False, events = [], exitCode = None\<rparr>"

text \<open>A call \<^verbatim>\<open>reportDiagnostic(d)\<close> goes to the reporter that is bound at that moment.\<close>

definition callReportDiagnostic :: "Diagnostic \<Rightarrow> state \<Rightarrow> state" where
  "callReportDiagnostic d s = logEvent (Reported (reportDiagnostic s) d) s"

fun forEachReportDiagnostic :: "Diagnostic list \<Rightarrow> state \<Rightarrow> state" where
  "forEachReportDiagnostic [] s = s"
| "forEachReportDiagnostic (d # ds) s = forEachReportDiagnostic ds (callReportDiagnostic d s)"

definition defaultIsPretty :: "'n host \<Rightarrow> bool" where
  "defaultIsPretty h = (case writeOutputIsTTY h of None \<Rightarrow> False | Some tty \<Rightarrow> tty)"

definition shouldBePretty :: "'n host \<Rightarrow> Options option \<Rightarrow> bool" where
  "shouldBePretty h opts =
     (case opts of
        None \<Rightarrow> defaultIsPretty h
      | Some os \<Rightarrow> (case prettyOf os of None \<Rightarrow> defaultIsPretty h | Some p \<Rightarrow> p))"

definition updateReportDiagnostic :: "'n host \<Rightarrow> Options option \<Rightarrow> state \<Rightarrow> state" where
  "updateReportDiagnostic h opts s =
     (if shouldBePretty h opts
      then (case createDiagnosticReporter (Some True) s of
              (reporter, s') \<Rightarrow> s'\<lparr>reportDiagnostic := reporter\<rparr>)
      else s)"

subsection \<open>Padding (lines 33 to 46)\<close>

function padLeft :: "string \<Rightarrow> nat \<Rightarrow> string" where
  "padLeft s len = (if length s < len then padLeft (CHR '' '' # s) len else s)"
  by pat_completeness auto
termination
  by (relation "measure (\<lambda>(s, len). len - length s)") auto

function padRight :: "string \<Rightarrow> nat \<Rightarrow> string" where
  "padRight s len = (if length s < len then padRight (s @ [CHR '' '']) len else s)"
  by pat_completeness auto
termination
  by (relation "measure (\<lambda>(s, len). len - length s)") auto

declare padLeft.simps [simp del]
declare padRight.simps [simp del]

subsection \<open>Help (lines 48 to 53)\<close>

definition getOptionsForHelp :: "'n host \<Rightarrow> ParsedCommandLine \<Rightarrow> CommandLineOption list" where
  "getOptionsForHelp h commandLine =
     (if all (options commandLine)
      then sort' h (optionDeclarations h)
             (\<lambda>a b. compareStringsCaseInsensitive h (optionName a) (optionName b))
      else filter (\<lambda>v. showInSimplifiedHelpView v) (optionDeclarations h))"

subsection \<open>Statistics (lines 7 to 13 and 313 to 394)\<close>

definition countLines :: "Program \<Rightarrow> nat" where
  "countLines program =
     foldl (\<lambda>count file. count + length (lineStarts file)) 0 (getSourceFiles program)"

text \<open>\<^verbatim>\<open>"" + count\<close> for a count: its decimal digits. \<open>digitChar\<close> is only applied to
  numbers below ten.\<close>

definition digitChar :: "nat \<Rightarrow> char" where
  "digitChar d = ''0123456789'' ! d"

fun numberToString :: "nat \<Rightarrow> string" where
  "numberToString n =
     (if n < 10 then [digitChar n] else numberToString (n div 10) @ [digitChar (n mod 10)])"

declare numberToString.simps [simp del]

text \<open>\<^verbatim>\<open>Math.round(memoryUsed / 1000)\<close> for a number of bytes that is not negative: halves
  round upwards.\<close>

definition roundThousands :: "int \<Rightarrow> nat" where
  "roundThousands memoryUsed = nat ((memoryUsed + 500) div 1000)"

definition enableStatistics :: "CompilerOptions \<Rightarrow> state \<Rightarrow> state" where
  "enableStatistics compilerOptions s =
     (if diagnostics compilerOptions \<or> extendedDiagnostics compilerOptions
      then s\<lparr>performanceEnabled := True\<rparr> else s)"

definition reportStatisticalValue :: "Statistic list \<Rightarrow> string \<Rightarrow> string \<Rightarrow> Statistic list" where
  "reportStatisticalValue statistics nm v = statistics @ [\<lparr>name = nm, val = v\<rparr>]"

definition reportCountStatistic :: "Statistic list \<Rightarrow> string \<Rightarrow> nat \<Rightarrow> Statistic list" where
  "reportCountStatistic statistics nm count =
     reportStatisticalValue statistics nm ([] @ numberToString count)"

definition reportTimeStatistic :: "'n host \<Rightarrow> Statistic list \<Rightarrow> string \<Rightarrow> 'n \<Rightarrow> Statistic list" where
  "reportTimeStatistic h statistics nm time =
     reportStatisticalValue statistics nm (toFixed h (numDivide h time (num1000 h)) 2 @ ''s'')"

text \<open>The first loop of the inner \<^verbatim>\<open>reportStatistics\<close> (lines 366 to 376), from the sizes
  so far.\<close>

fun sizes :: "Statistic list \<Rightarrow> nat \<times> nat \<Rightarrow> nat \<times> nat" where
  "sizes [] (nameSize, valueSize) = (nameSize, valueSize)"
| "sizes (st # rest) (nameSize, valueSize) =
     sizes rest
       (if length (name st) > nameSize then length (name st) else nameSize,
        if length (val st) > valueSize then length (val st) else valueSize)"

text \<open>The second loop (lines 378 to 380).\<close>

fun writeRows :: "'n host \<Rightarrow> nat \<Rightarrow> nat \<Rightarrow> Statistic list \<Rightarrow> state \<Rightarrow> state" where
  "writeRows h nameSize valueSize [] s = s"
| "writeRows h nameSize valueSize (st # rest) s =
     writeRows h nameSize valueSize rest
       (sysWrite (padRight (name st @ '':'') (nameSize + 2) @ padLeft (val st) valueSize @ newLine h) s)"

text \<open>The inner function \<^verbatim>\<open>reportStatistics()\<close> (lines 365 to 381), on the statistics
  collected so far.\<close>

definition reportStatisticsInner :: "'n host \<Rightarrow> Statistic list \<Rightarrow> state \<Rightarrow> state" where
  "reportStatisticsInner h statistics s =
     (case sizes statistics (0, 0) of
        (nameSize, valueSize) \<Rightarrow> writeRows h nameSize valueSize statistics s)"

text \<open>The statistics that lines 323 to 359 have collected when line 360 renders them.\<close>

definition collectStatistics :: "'n host \<Rightarrow> Program \<Rightarrow> Statistic list" where
  "collectStatistics h program =
     (let compilerOptions = getCompilerOptions program;
          statistics = [];
          memoryUsed = (case getMemoryUsage h of Some m \<Rightarrow> m | None \<Rightarrow> - 1);
          statistics = reportCountStatistic statistics ''Files'' (length (getSourceFiles program));
          statistics = reportCountStatistic statistics ''Lines'' (countLines program);
          statistics = reportCountStatistic statistics ''Nodes'' (getNodeCount program);
          statistics = reportCountStatistic statistics ''Identifiers'' (getIdentifierCount program);
          statistics = reportCountStatistic statistics ''Symbols'' (getSymbolCount program);
          statistics = reportCountStatistic statistics ''Types'' (getTypeCount program);
          statistics =
            (if memoryUsed \<ge> 0
             then reportStatisticalValue statistics ''Memory used''
                    (numberToString (roundThousands memoryUsed) @ ''K'')
             else statistics);
          programTime = getDuration h ''Program'';
          bindTime = getDuration h ''Bind'';
          checkTime = getDuration h ''Check'';
          emitTime = getDuration h ''Emit'';
          statistics =
            (if extendedDiagnostics compilerOptions
             then
               let caches = getRelationCacheSizes program;
                   statistics = reportCountStatistic statistics ''Assignability cache size'' (assignable caches);
                   statistics = reportCountStatistic statistics ''Identity cache size'' (identity caches);
                   statistics = reportCountStatistic statistics ''Subtype cache size'' (subtype caches)
               in foldl (\<lambda>statistics (nm, duration).
                           reportTimeStatistic h statistics (nm @ '' time'') duration)
                    statistics (forEachMeasure h)
             else
               let statistics = reportTimeStatistic h statistics ''I/O read'' (getDuration h ''I/O Read'');
                   statistics = reportTimeStatistic h statistics ''I/O write'' (getDuration h ''I/O Write'');
                   statistics = reportTimeStatistic h statistics ''Parse time'' programTime;
                   statistics = reportTimeStatistic h statistics ''Bind time'' bindTime;
                   statistics = reportTimeStatistic h statistics ''Check time'' checkTime
               in reportTimeStatistic h statistics ''Emit time'' emitTime)
      in reportTimeStatistic h statistics ''Total time''
           (numAdd h (numAdd h (numAdd h programTime bindTime) checkTime) emitTime))"

definition reportStatistics :: "'n host \<Rightarrow> Program \<Rightarrow> state \<Rightarrow> state" where
  "reportStatistics h program s =
     (let compilerOptions = getCompilerOptions program in
      if diagnostics compilerOptions \<or> extendedDiagnostics compilerOptions
      then (reportStatisticsInner h (collectStatistics h program) s)\<lparr>performanceEnabled := False\<rparr>
      else s)"

subsection \<open>Scaffolding a configuration file (lines 396 to 408)\<close>

definition writeConfigFile :: "'n host \<Rightarrow> CompilerOptions \<Rightarrow> string list \<Rightarrow> state \<Rightarrow> state" where
  "writeConfigFile h opts names s =
     (let currentDirectory = getCurrentDirectory h;
          file = normalizePath h (combinePaths h currentDirectory ''tsconfig.json'');
          s = logEvent (FileExists file) s
      in if fileExists h file
         then callReportDiagnostic
                (createCompilerDiagnostic A_tsconfig_json_file_is_already_defined_at_Colon_0 [file]) s
         else callReportDiagnostic
                (createCompilerDiagnostic Successfully_created_a_tsconfig_json_file [])
                (sysWriteFile file (generateTSConfig h opts names (newLine h)) s))"

subsection \<open>The terminal actions (lines 177 to 182 and 231 to 311)\<close>

text \<open>\<^verbatim>\<open>reportWatchModeWithoutSysSupport\<close>: \<open>Inl\<close> when the process has ended, \<open>Inr\<close> when the
  caller goes on.\<close>

definition reportWatchModeWithoutSysSupport :: "'n host \<Rightarrow> state \<Rightarrow> state + state" where
  "reportWatchModeWithoutSysSupport h s =
     (if \<not> hasWatchFile h \<or> \<not> hasWatchDirectory h
      then Inl (sysExit DiagnosticsPresent_OutputsSkipped
                  (callReportDiagnostic
                     (createCompilerDiagnostic The_current_host_does_not_support_the_0_option [''--watch''])
                     s))
      else Inr s)"

text \<open>\<^verbatim>\<open>createReportErrorSummary\<close> returns a function or \<^verbatim>\<open>undefined\<close>; the model keeps whether
  it is defined. \<^verbatim>\<open>createWatchStatusReporter\<close> hands the flag to the library.\<close>

definition createReportErrorSummary :: "'n host \<Rightarrow> Options option \<Rightarrow> bool" where
  "createReportErrorSummary h opts = shouldBePretty h opts"

definition createWatchStatusReporter :: "'n host \<Rightarrow> Options option \<Rightarrow> bool" where
  "createWatchStatusReporter h opts = shouldBePretty h opts"

text \<open>In \<^verbatim>\<open>performCompilation\<close> the compiler host of lines 238 to 241 stays inside the
  collaborators \<^verbatim>\<open>createProgram\<close> and \<^verbatim>\<open>emitFilesAndReportErrors\<close>. The hooks that hand
  \<^verbatim>\<open>reportStatistics\<close> to the incremental compiler, the watch hosts and the solution builders
  (lines 217, 225, 272 and 276 to 294) are called by those collaborators, not by the driver.\<close>

definition performCompilation ::
  "'n host \<Rightarrow> string list \<Rightarrow> ProjectReference list option \<Rightarrow> CompilerOptions
    \<Rightarrow> Diagnostic list option \<Rightarrow> state \<Rightarrow> state" where
  "performCompilation h rootNames references opts configFileParsingDiagnostics s =
     (let s = enableStatistics opts s;
          program = createProgram h rootNames references opts configFileParsingDiagnostics;
          exitStatus = emitFilesAndReportErrors h program;
          s = logEvent (EmitFilesAndReportErrors program (reportDiagnostic s)
                          (createReportErrorSummary h (Some (OfCompiler opts)))) s;
          s = reportStatistics h program s
      in sysExit exitStatus s)"

definition performIncrementalCompilation :: "'n host \<Rightarrow> ParsedCommandLine \<Rightarrow> state \<Rightarrow> state" where
  "performIncrementalCompilation h config s =
     (let s = enableStatistics (options config) s;
          s = logEvent (TsPerformIncrementalCompilation config (reportDiagnostic s)
                          (createReportErrorSummary h (Some (OfCompiler (options config))))) s
      in sysExit (tsPerformIncrementalCompilation h config) s)"

definition createWatchOfConfigFile ::
  "'n host \<Rightarrow> ParsedCommandLine \<Rightarrow> CompilerOptions \<Rightarrow> state \<Rightarrow> state" where
  "createWatchOfConfigFile h configParseResult optionsToExtend s =
     logEvent (CreateWatchProgramOfConfigFile configParseResult optionsToExtend (reportDiagnostic s)
                 (createWatchStatusReporter h (Some (OfCompiler (options configParseResult))))) s"

definition createWatchOfFilesAndCompilerOptions ::
  "'n host \<Rightarrow> string list \<Rightarrow> CompilerOptions \<Rightarrow> state \<Rightarrow> state" where
  "createWatchOfFilesAndCompilerOptions h rootFiles opts s =
     logEvent (CreateWatchProgramOfFilesAndCompilerOptions rootFiles opts (reportDiagnostic s)
                 (createWatchStatusReporter h (Some (OfCompiler opts)))) s"

subsection \<open>The build dispatcher (lines 184 to 229)\<close>

definition performBuild :: "'n host \<Rightarrow> string list \<Rightarrow> state \<Rightarrow> state" where
  "performBuild h args s =
     (case parseBuildCommand h args of
        (buildOptions, projects, errs) \<Rightarrow>
          let s = logEvent (ParseBuildCommand args) s;
              s = updateReportDiagnostic h (Some (OfBuild buildOptions)) s
          in if errs \<noteq> []
             then sysExit DiagnosticsPresent_OutputsSkipped (forEachReportDiagnostic errs s)
             else if helpB buildOptions
             then sysExit Success (printHelp (buildOpts h) (Some ''--build '') (printVersion s))
             else if projects = []
             then sysExit Success (printHelp (buildOpts h) (Some ''--build '') (printVersion s))
             else if \<not> hasGetModifiedTime h \<or> \<not> hasSetModifiedTime h
                     \<or> (cleanB buildOptions \<and> \<not> hasDeleteFile h)
             then sysExit DiagnosticsPresent_OutputsSkipped
                    (callReportDiagnostic
                       (createCompilerDiagnostic The_current_host_does_not_support_the_0_option [''--build''])
                       s)
             else
               (case (if watchB buildOptions then reportWatchModeWithoutSysSupport h s else Inr s) of
                  Inl ended \<Rightarrow> ended
                | Inr s \<Rightarrow>
                    if watchB buildOptions
                    then
                      let s = logEvent (CreateSolutionBuilderWithWatch projects buildOptions (reportDiagnostic s)
                                          (shouldBePretty h (Some (OfBuild buildOptions)))
                                          (createWatchStatusReporter h (Some (OfBuild buildOptions)))) s;
                          s = logEvent BuildAllProjects s
                      in logEvent StartWatching s
                    else
                      let s = logEvent (CreateSolutionBuilder projects buildOptions (reportDiagnostic s)
                                          (shouldBePretty h (Some (OfBuild buildOptions)))
                                          (createReportErrorSummary h (Some (OfBuild buildOptions)))) s
                      in if cleanB buildOptions
                         then sysExit (cleanAllProjects h projects buildOptions) (logEvent CleanAllProjects s)
                         else sysExit (buildAllProjects h projects buildOptions) (logEvent BuildAllProjects s)))"

subsection \<open>The mode resolver (lines 55 to 175)\<close>

definition CharacterCodes_minus :: nat where
  "CharacterCodes_minus = 0x2D"

text \<open>\<^verbatim>\<open>charCodeAt\<close>: \<open>None\<close> stands for \<^verbatim>\<open>NaN\<close>, the result past the end of the string.\<close>

definition charCodeAt :: "string \<Rightarrow> nat \<Rightarrow> nat option" where
  "charCodeAt str i = (if i < length str then Some (of_char (str ! i)) else None)"

text \<open>\<^verbatim>\<open>toLowerCase\<close> on code units below 256: the letters A to Z, and the capital letters
  of Latin-1 (0xC0 to 0xDE but the multiplication sign 0xD7).\<close>

definition toLowerCaseChar :: "char \<Rightarrow> char" where
  "toLowerCaseChar c =
     (let n = (of_char c :: nat)
      in if (65 \<le> n \<and> n \<le> 90) \<or> (192 \<le> n \<and> n \<le> 222 \<and> n \<noteq> 215) then char_of (n + 32) else c)"

definition toLowerCase :: "string \<Rightarrow> string" where
  "toLowerCase str = map toLowerCaseChar str"

text \<open>The value of an optional string that has been found truthy.\<close>

definition valueOf :: "string option \<Rightarrow> string" where
  "valueOf v = (case v of None \<Rightarrow> [] | Some x \<Rightarrow> x)"

text \<open>Lines 99 to 124: \<open>Inl\<close> when the process has ended, else the configuration file name
  (if any).\<close>

definition resolveConfigFileName ::
  "'n host \<Rightarrow> ParsedCommandLine \<Rightarrow> state \<Rightarrow> state + (string option \<times> state)" where
  "resolveConfigFileName h commandLine s =
     (if truthy (project (options commandLine))
      then
        if fileNames commandLine \<noteq> []
        then Inl (sysExit DiagnosticsPresent_OutputsSkipped
                    (callReportDiagnostic
                       (createCompilerDiagnostic
                          Option_project_cannot_be_mixed_with_source_files_on_a_command_line [])
                       s))
        else
          let fileOrDirectory = normalizePath h (valueOf (project (options commandLine)));
              s = (if fileOrDirectory = [] then s else logEvent (DirectoryExists fileOrDirectory) s)
          in if fileOrDirectory = [] \<or> directoryExists h fileOrDirectory
             then
               let configFileName = combinePaths h fileOrDirectory ''tsconfig.json'';
                   s = logEvent (FileExists configFileName) s
               in if \<not> fileExists h configFileName
                  then Inl (sysExit DiagnosticsPresent_OutputsSkipped
                              (callReportDiagnostic
                                 (createCompilerDiagnostic
                                    Cannot_find_a_tsconfig_json_file_at_the_specified_directory_Colon_0
                                    [valueOf (project (options commandLine))])
                                 s))
                  else Inr (Some configFileName, s)
             else
               let configFileName = fileOrDirectory;
                   s = logEvent (FileExists configFileName) s
               in if \<not> fileExists h configFileName
                  then Inl (sysExit DiagnosticsPresent_OutputsSkipped
                              (callReportDiagnostic
                                 (createCompilerDiagnostic The_specified_path_does_not_exist_Colon_0
                                    [valueOf (project (options commandLine))])
                                 s))
                  else Inr (Some configFileName, s)
      else if fileNames commandLine = []
      then
        let searchPath = normalizePath h (getCurrentDirectory h)
        in Inr (findConfigFile h searchPath (fileExists h), logEvent (FindConfigFile searchPath) s)
      else Inr (None, s))"

text \<open>Lines 132 to 174. A configuration parse that yields \<^verbatim>\<open>undefined\<close> makes the next
  property access throw.\<close>

definition selectMode ::
  "'n host \<Rightarrow> ParsedCommandLine \<Rightarrow> string option \<Rightarrow> state \<Rightarrow> state" where
  "selectMode h commandLine configFileName s =
     (let commandLineOptions = options commandLine
      in if truthy configFileName
         then
           (case parseConfigFileWithSystem h (valueOf configFileName) commandLineOptions of
              None \<Rightarrow>
                logEvent TypeError
                  (logEvent (ParseConfigFileWithSystem (valueOf configFileName) commandLineOptions) s)
            | Some configParseResult \<Rightarrow>
                let s = logEvent (ParseConfigFileWithSystem (valueOf configFileName) commandLineOptions) s
                in if showConfig commandLineOptions
                   then
                     if errors configParseResult \<noteq> []
                     then
                       let s = updateReportDiagnostic h (Some (OfCompiler (options configParseResult))) s
                       in sysExit DiagnosticsPresent_OutputsSkipped
                            (forEachReportDiagnostic (errors configParseResult) s)
                     else
                       sysExit Success
                         (sysWrite (stringifyTSConfig h configParseResult (valueOf configFileName) 4
                                      @ newLine h) s)
                   else
                     let s = updateReportDiagnostic h (Some (OfCompiler (options configParseResult))) s
                     in if isWatchSet h (options configParseResult)
                        then
                          (case reportWatchModeWithoutSysSupport h s of
                             Inl ended \<Rightarrow> ended
                           | Inr s \<Rightarrow> createWatchOfConfigFile h configParseResult commandLineOptions s)
                        else if isIncrementalCompilation h (options configParseResult)
                        then performIncrementalCompilation h configParseResult s
                        else performCompilation h (fileNames configParseResult)
                               (projectReferences configParseResult) (options configParseResult)
                               (Some (getConfigFileParsingDiagnostics h configParseResult)) s)
         else
           if showConfig commandLineOptions
           then
             sysExit Success
               (sysWrite (stringifyTSConfig h commandLine
                            (combinePaths h (getCurrentDirectory h) ''tsconfig.json'') 4
                          @ newLine h) s)
           else
             let s = updateReportDiagnostic h (Some (OfCompiler commandLineOptions)) s
             in if isWatchSet h commandLineOptions
                then
                  (case reportWatchModeWithoutSysSupport h s of
                     Inl ended \<Rightarrow> ended
                   | Inr s \<Rightarrow> createWatchOfFilesAndCompilerOptions h (fileNames commandLine) commandLineOptions s)
                else if isIncrementalCompilation h commandLineOptions
                then performIncrementalCompilation h commandLine s
                else performCompilation h (fileNames commandLine) None commandLineOptions None s)"

text \<open>The test of lines 56 to 58 on the raw arguments.\<close>

definition firstArgumentIsBuild :: "string list \<Rightarrow> bool" where
  "firstArgumentIsBuild args =
     (args \<noteq> [] \<and> charCodeAt (args ! 0) 0 = Some CharacterCodes_minus
      \<and> (let firstOption =
                toLowerCase
                  (drop (if charCodeAt (args ! 0) 1 = Some CharacterCodes_minus then 2 else 1)
                     (args ! 0))
          in firstOption = ''build'' \<or> firstOption = ''b''))"

text \<open>Lines 72 to 74: the locale is validated, and what fails is pushed onto the errors of
  the command line.\<close>

definition setLocale :: "'n host \<Rightarrow> ParsedCommandLine \<Rightarrow> state \<Rightarrow> ParsedCommandLine \<times> state" where
  "setLocale h commandLine s =
     (if truthy (locale' (options commandLine))
      then (commandLine
              \<lparr>errors := errors commandLine
                 @ validateLocaleAndSetLanguage h (valueOf (locale' (options commandLine)))\<rparr>,
            logEvent (ValidateLocaleAndSetLanguage (valueOf (locale' (options commandLine)))) s)
      else (commandLine, s))"

definition executeCommandLine :: "'n host \<Rightarrow> string list \<Rightarrow> state \<Rightarrow> state" where
  "executeCommandLine h args s =
     (if firstArgumentIsBuild args
      then performBuild h (drop 1 args) s
      else
        let commandLine = parseCommandLine h args;
            s = logEvent (ParseCommandLine args) s
        in if build (options commandLine)
           then sysExit DiagnosticsPresent_OutputsSkipped
                  (callReportDiagnostic
                     (createCompilerDiagnostic Option_build_must_be_the_first_command_line_argument [])
                     s)
           else
             (case setLocale h commandLine s of
                (commandLine, s) \<Rightarrow>
                  if errors commandLine \<noteq> []
                  then sysExit DiagnosticsPresent_OutputsSkipped
                         (forEachReportDiagnostic (errors commandLine) s)
                  else if init (options commandLine)
                  then sysExit Success
                         (writeConfigFile h (options commandLine) (fileNames commandLine) s)
                  else if version (options commandLine)
                  then sysExit Success (printVersion s)
                  else if help' (options commandLine) \<or> all (options commandLine)
                  then sysExit Success
                         (printHelp (getOptionsForHelp h commandLine) None (printVersion s))
                  else
                    (case resolveConfigFileName h commandLine s of
                       Inl ended \<Rightarrow> ended
                     | Inr (configFileName, s) \<Rightarrow>
                         if fileNames commandLine = [] \<and> \<not> truthy configFileName
                         then sysExit Success
                                (printHelp (getOptionsForHelp h commandLine) None (printVersion s))
                         else selectMode h commandLine configFileName s)))"

subsection \<open>Where a run stands\<close>

text \<open>The command line and the state when line 78 is reached: the arguments are parsed and
  the locale, if any, is set. The command line does not depend on the state that
  \<open>setLocale\<close> is given.\<close>

definition commandLineAt78 :: "'n host \<Rightarrow> string list \<Rightarrow> ParsedCommandLine" where
  "commandLineAt78 h args = fst (setLocale h (parseCommandLine h args) initialState)"

definition stateAt78 :: "'n host \<Rightarrow> string list \<Rightarrow> state \<Rightarrow> state" where
  "stateAt78 h args s =
     snd (setLocale h (parseCommandLine h args) (logEvent (ParseCommandLine args) s))"

text \<open>A run reaches the test of \<^verbatim>\<open>init\<close> (line 83) when the build redirect is not taken,
  \<^verbatim>\<open>build\<close> is not set and there are no errors; it reaches the test of \<^verbatim>\<open>project\<close>
  (line 99) when moreover none of \<^verbatim>\<open>init\<close>, \<^verbatim>\<open>version\<close>, \<^verbatim>\<open>help\<close> and \<^verbatim>\<open>all\<close> is set.\<close>

definition reachesInitTest :: "'n host \<Rightarrow> string list \<Rightarrow> bool" where
  "reachesInitTest h args =
     (\<not> firstArgumentIsBuild args \<and> \<not> build (options (parseCommandLine h args))
      \<and> errors (commandLineAt78 h args) = [])"

definition reachesProjectTest :: "'n host \<Rightarrow> string list \<Rightarrow> bool" where
  "reachesProjectTest h args =
     (reachesInitTest h args
      \<and> \<not> init (options (commandLineAt78 h args))
      \<and> \<not> version (options (commandLineAt78 h args))
      \<and> \<not> help' (options (commandLineAt78 h args))
      \<and> \<not> all (options (commandLineAt78 h args)))"

text \<open>The reporter that is bound is plain and is one of the reporters created so far: the
  state of the process when it starts, and until the reporter is rebound.\<close>

definition plainReporterBound :: "state \<Rightarrow> bool" where
  "plainReporterBound s =
     (\<not> isPretty (reportDiagnostic s) \<and> reporterId (reportDiagnostic s) < reportersCreated s)"

text \<open>The events that a run has added to those of the state it started in.\<close>

definition newEvents :: "state \<Rightarrow> state \<Rightarrow> event list" where
  "newEvents s s' = drop (length (events s)) (events s')"

text \<open>The events that the build dispatcher can cause.\<close>

fun ofBuildDispatcher :: "event \<Rightarrow> bool" where
  "ofBuildDispatcher (ParseBuildCommand args) = True"
| "ofBuildDispatcher (Reported reporter d) = True"
| "ofBuildDispatcher PrintVersion = True"
| "ofBuildDispatcher (PrintHelp optionList syntaxPrefix) = True"
| "ofBuildDispatcher (Exit status) = True"
| "ofBuildDispatcher (CreateSolutionBuilder projects buildOptions reporter statusPretty summary) = True"
| "ofBuildDispatcher (CreateSolutionBuilderWithWatch projects buildOptions reporter statusPretty watchPretty) = True"
| "ofBuildDispatcher BuildAllProjects = True"
| "ofBuildDispatcher CleanAllProjects = True"
| "ofBuildDispatcher StartWatching = True"
| "ofBuildDispatcher e = False"

subsection \<open>The rendering of the statistics, in the words of the specification\<close>

definition rightPad :: "string \<Rightarrow> nat \<Rightarrow> string" where
  "rightPad str width = str @ replicate (width - length str) (CHR '' '')"

definition leftPad :: "string \<Rightarrow> nat \<Rightarrow> string" where
  "leftPad str width = replicate (width - length str) (CHR '' '') @ str"

definition nameWidth :: "Statistic list \<Rightarrow> nat" where
  "nameWidth statistics = Max (set (map (\<lambda>st. length (name st)) statistics))"

definition valueWidth :: "Statistic list \<Rightarrow> nat" where
  "valueWidth statistics = Max (set (map (\<lambda>st. length (val st)) statistics))"

definition renderedRows :: "string \<Rightarrow> Statistic list \<Rightarrow> string list" where
  "renderedRows terminator statistics =
     map (\<lambda>st. rightPad (name st @ '':'') (nameWidth statistics + 2)
                @ leftPad (val st) (valueWidth statistics) @ terminator)
       statistics"

subsection \<open>The resolution of the project option, in the words of the specification\<close>

text \<open>The normalized value of \<^verbatim>\<open>project\<close>; whether it stands for a directory (the current
  one when empty); the configuration file it is resolved to (the default file name in the
  directory, or the path itself); and the probes of the file system that the resolution
  makes.\<close>

definition projectPath :: "'n host \<Rightarrow> ParsedCommandLine \<Rightarrow> string" where
  "projectPath h commandLine = normalizePath h (valueOf (project (options commandLine)))"

definition projectIsDirectory :: "'n host \<Rightarrow> ParsedCommandLine \<Rightarrow> bool" where
  "projectIsDirectory h commandLine =
     (projectPath h commandLine = [] \<or> directoryExists h (projectPath h commandLine))"

definition projectConfigFile :: "'n host \<Rightarrow> ParsedCommandLine \<Rightarrow> string" where
  "projectConfigFile h commandLine =
     (if projectIsDirectory h commandLine
      then combinePaths h (projectPath h commandLine) ''tsconfig.json''
      else projectPath h commandLine)"

definition projectProbes :: "'n host \<Rightarrow> ParsedCommandLine \<Rightarrow> event list" where
  "projectProbes h commandLine =
     (if projectPath h commandLine = [] then [] else [DirectoryExists (projectPath h commandLine)])
     @ [FileExists (projectConfigFile h commandLine)]"




subsection \<open>A host to run the driver on\<close>

text \<open>A small host: numbers are real numbers with exact arithmetic, the arguments are parsed
  by a parser that knows a few flags, and the file system has one project directory. The
  host is not a JavaScript engine: \<open>sampleToFixed\<close> rounds the exact quotient, halves upwards,
  where \<^verbatim>\<open>toFixed\<close> rounds the binary number nearest to it (15 milliseconds give 0.02 here and
  0.01 there). On the durations that the host reports (0, 4 and their sum 16 milliseconds)
  both give the same digits.\<close>

definition padZeros :: "nat \<Rightarrow> string \<Rightarrow> string" where
  "padZeros width str = replicate (width - length str) (CHR ''0'') @ str"

definition sampleToFixed :: "real \<Rightarrow> nat \<Rightarrow> string" where
  "sampleToFixed q fractionDigits =
     (let scaled = nat \<lfloor>q * 10 ^ fractionDigits + 1 / 2\<rfloor>
      in numberToString (scaled div 10 ^ fractionDigits) @ ''.''
         @ padZeros fractionDigits (numberToString (scaled mod 10 ^ fractionDigits)))"

definition noOptions :: CompilerOptions where
  "noOptions =
     \<lparr>build = False, locale' = None, init = False, version = False, help' = False, all = False,
      project = None, showConfig = False, pretty = None, watch = False, incremental = False,
      diagnostics = False, extendedDiagnostics = False, configFilePath = None\<rparr>"

fun sampleParse :: "string list \<Rightarrow> ParsedCommandLine \<Rightarrow> ParsedCommandLine" where
  "sampleParse [] commandLine = commandLine"
| "sampleParse (arg # rest) commandLine =
     (if arg = ''--build'' then sampleParse rest (commandLine\<lparr>options := (options commandLine)\<lparr>build := True\<rparr>\<rparr>)
      else if arg = ''--init'' then sampleParse rest (commandLine\<lparr>options := (options commandLine)\<lparr>init := True\<rparr>\<rparr>)
      else if arg = ''--version'' then sampleParse rest (commandLine\<lparr>options := (options commandLine)\<lparr>version := True\<rparr>\<rparr>)
      else if arg = ''--showConfig'' then sampleParse rest (commandLine\<lparr>options := (options commandLine)\<lparr>showConfig := True\<rparr>\<rparr>)
      else if arg = ''--diagnostics'' then sampleParse rest (commandLine\<lparr>options := (options commandLine)\<lparr>diagnostics := True\<rparr>\<rparr>)
      else if arg = ''--pretty'' then sampleParse rest (commandLine\<lparr>options := (options commandLine)\<lparr>pretty := Some True\<rparr>\<rparr>)
      else if arg = ''--project''
      then (case rest of
              [] \<Rightarrow> commandLine\<lparr>errors := errors commandLine
                       @ [createCompilerDiagnostic (Message_of_collaborator 6044) [''project'']]\<rparr>
            | v # rest' \<Rightarrow>
                sampleParse rest' (commandLine\<lparr>options := (options commandLine)\<lparr>project := Some v\<rparr>\<rparr>))
      else sampleParse rest (commandLine\<lparr>fileNames := fileNames commandLine @ [arg]\<rparr>))"

fun sampleParseBuild ::
  "string list \<Rightarrow> BuildOptions \<times> string list \<times> Diagnostic list
    \<Rightarrow> BuildOptions \<times> string list \<times> Diagnostic list" where
  "sampleParseBuild [] parsed = parsed"
| "sampleParseBuild (arg # rest) (buildOptions, projects, errs) =
     (if arg = ''--clean'' then sampleParseBuild rest (buildOptions\<lparr>cleanB := True\<rparr>, projects, errs)
      else if arg = ''--watch'' then sampleParseBuild rest (buildOptions\<lparr>watchB := True\<rparr>, projects, errs)
      else sampleParseBuild rest (buildOptions, projects @ [arg], errs))"

definition sampleProgram :: "string list \<Rightarrow> CompilerOptions \<Rightarrow> Program" where
  "sampleProgram rootNames opts =
     \<lparr>getCompilerOptions = opts,
      getSourceFiles = map (\<lambda>f. \<lparr>fileName = f, lineStarts = [0, 12, 30]\<rparr>) rootNames,
      getNodeCount = 120, getIdentifierCount = 45, getSymbolCount = 30, getTypeCount = 9,
      getRelationCacheSizes = \<lparr>assignable = 2, identity = 0, subtype = 1\<rparr>\<rparr>"

definition sampleHost :: "real host" where
  "sampleHost =
     \<lparr>numAdd = (\<lambda>a b. a + b), numDivide = (\<lambda>a b. a / b), num1000 = 1000,
      toFixed = sampleToFixed,
      stringifyTSConfig = (\<lambda>config path indent. ''{}''),
      newLine = [CHR 0x0A],
      writeOutputIsTTY = Some False,
      getCurrentDirectory = ''/work'',
      directoryExists = (\<lambda>path. path = ''proj''),
      fileExists = (\<lambda>path. path = ''proj/tsconfig.json''),
      getMemoryUsage = Some 52428800,
      hasWatchFile = True, hasWatchDirectory = True,
      hasGetModifiedTime = True, hasSetModifiedTime = True, hasDeleteFile = True,
      getDuration =
        (\<lambda>measure. if measure = ''Program'' then 4 else if measure = ''Bind'' then 4
                    else if measure = ''Check'' then 4 else if measure = ''Emit'' then 4 else 0),
      forEachMeasure = [(''Program'', 4), (''Bind'', 4), (''Check'', 4), (''Emit'', 4)],
      parseCommandLine =
        (\<lambda>args. sampleParse args
                   \<lparr>options = noOptions, fileNames = [], projectReferences = None, errors = []\<rparr>),
      parseBuildCommand =
        (\<lambda>args. sampleParseBuild args
                   (\<lparr>helpB = False, cleanB = False, watchB = False, prettyB = None\<rparr>, [], [])),
      validateLocaleAndSetLanguage = (\<lambda>l. []),
      normalizePath = (\<lambda>path. if path = ''.'' then [] else path),
      combinePaths = (\<lambda>a b. if a = [] then b else a @ ''/'' @ b),
      findConfigFile = (\<lambda>searchPath exists. None),
      parseConfigFileWithSystem =
        (\<lambda>path opts. Some \<lparr>options = opts, fileNames = [''proj/a.ts''],
                            projectReferences = None, errors = []\<rparr>),
      generateTSConfig = (\<lambda>opts names terminator. ''{}'' @ terminator),
      isWatchSet = watch,
      isIncrementalCompilation = incremental,
      optionDeclarations =
        [\<lparr>optionName = ''watch'', showInSimplifiedHelpView = True\<rparr>,
         \<lparr>optionName = ''noImplicitAny'', showInSimplifiedHelpView = False\<rparr>],
      buildOpts = [\<lparr>optionName = ''clean'', showInSimplifiedHelpView = True\<rparr>],
      sort' = (\<lambda>xs compare. xs),
      compareStringsCaseInsensitive = (\<lambda>a b. EqualTo),
      createProgram = (\<lambda>rootNames references opts configDiagnostics. sampleProgram rootNames opts),
      emitFilesAndReportErrors = (\<lambda>program. Success),
      tsPerformIncrementalCompilation = (\<lambda>config. Success),
      getConfigFileParsingDiagnostics = errors,
      buildAllProjects = (\<lambda>projects buildOptions. Success),
      cleanAllProjects = (\<lambda>projects buildOptions. Success)\<rparr>"

text \<open>The same host, but every configuration file has two errors and asks for pretty output.\<close>

definition failingConfigHost :: "real host" where
  "failingConfigHost =
     sampleHost\<lparr>parseConfigFileWithSystem :=
       (\<lambda>path opts. Some \<lparr>options = opts\<lparr>pretty := Some True\<rparr>, fileNames = [],
                          projectReferences = None,
                          errors = [createCompilerDiagnostic (Message_of_collaborator 5014) [path],
                                    createCompilerDiagnostic (Message_of_collaborator 1005) [path]]\<rparr>)\<rparr>"

section \<open>Properties\<close>

subsection \<open>What each operation does to the state\<close>

lemma events_logEvent [simp]: "events (logEvent e s) = events s @ [e]"
  by (simp add: logEvent_def)

lemma reporter_logEvent [simp]: "reportDiagnostic (logEvent e s) = reportDiagnostic s"
  by (simp add: logEvent_def)

lemma exitCode_logEvent [simp]: "exitCode (logEvent e s) = exitCode s"
  by (simp add: logEvent_def)

lemma events_sysExit [simp]: "events (sysExit status s) = events s @ [Exit status]"
  by (simp add: sysExit_def)

lemma exitCode_sysExit [simp]: "exitCode (sysExit status s) = Some status"
  by (simp add: sysExit_def)

lemma reporter_sysExit [simp]: "reportDiagnostic (sysExit status s) = reportDiagnostic s"
  by (simp add: sysExit_def)

lemma events_callReportDiagnostic [simp]:
  "events (callReportDiagnostic d s) = events s @ [Reported (reportDiagnostic s) d]"
  by (simp add: callReportDiagnostic_def)

lemma reporter_callReportDiagnostic [simp]:
  "reportDiagnostic (callReportDiagnostic d s) = reportDiagnostic s"
  by (simp add: callReportDiagnostic_def)

lemma reporter_forEachReportDiagnostic [simp]:
  "reportDiagnostic (forEachReportDiagnostic ds s) = reportDiagnostic s"
  by (induction ds arbitrary: s) simp_all

lemma events_forEachReportDiagnostic [simp]:
  "events (forEachReportDiagnostic ds s) = events s @ map (Reported (reportDiagnostic s)) ds"
  by (induction ds arbitrary: s) simp_all

lemma events_printVersion [simp]: "events (printVersion s) = events s @ [PrintVersion]"
  by (simp add: printVersion_def)

lemma events_printHelp [simp]:
  "events (printHelp optionList syntaxPrefix s) = events s @ [PrintHelp optionList syntaxPrefix]"
  by (simp add: printHelp_def)

lemma reporter_printVersion [simp]: "reportDiagnostic (printVersion s) = reportDiagnostic s"
  by (simp add: printVersion_def)

lemma reporter_printHelp [simp]:
  "reportDiagnostic (printHelp optionList syntaxPrefix s) = reportDiagnostic s"
  by (simp add: printHelp_def)

lemma events_sysWrite [simp]: "events (sysWrite text s) = events s @ [Write text]"
  by (simp add: sysWrite_def)

lemma events_sysWriteFile [simp]: "events (sysWriteFile path text s) = events s @ [WriteFile path text]"
  by (simp add: sysWriteFile_def)

lemma reporter_sysWrite [simp]: "reportDiagnostic (sysWrite text s) = reportDiagnostic s"
  by (simp add: sysWrite_def)

lemma reporter_sysWriteFile [simp]: "reportDiagnostic (sysWriteFile path text s) = reportDiagnostic s"
  by (simp add: sysWriteFile_def)

lemma events_updateReportDiagnostic [simp]:
  "events (updateReportDiagnostic h opts s) = events s"
  by (simp add: updateReportDiagnostic_def createDiagnosticReporter_def)

lemma newEvents_append [simp]: "events s' = events s @ evs \<Longrightarrow> newEvents s s' = evs"
  by (simp add: newEvents_def)

lemma setLocale_at78:
  "setLocale h (parseCommandLine h args) (logEvent (ParseCommandLine args) s)
     = (commandLineAt78 h args, stateAt78 h args s)"
  unfolding commandLineAt78_def stateAt78_def
  by (simp add: setLocale_def)

lemma executeCommandLine_at_init:
  assumes "reachesInitTest h args" "init (options (commandLineAt78 h args))"
  shows "executeCommandLine h args s =
    sysExit Success (writeConfigFile h (options (commandLineAt78 h args))
       (fileNames (commandLineAt78 h args)) (stateAt78 h args s))"
  using assms unfolding reachesInitTest_def executeCommandLine_def
  by (simp add: Let_def setLocale_at78)

lemma executeCommandLine_at_project:
  assumes "reachesProjectTest h args"
  shows "executeCommandLine h args s =
    (case resolveConfigFileName h (commandLineAt78 h args) (stateAt78 h args s) of
       Inl ended \<Rightarrow> ended
     | Inr (configFileName, s') \<Rightarrow>
         if fileNames (commandLineAt78 h args) = [] \<and> \<not> truthy configFileName
         then sysExit Success
                (printHelp (getOptionsForHelp h (commandLineAt78 h args)) None (printVersion s'))
         else selectMode h (commandLineAt78 h args) configFileName s')"
  using assms unfolding reachesProjectTest_def reachesInitTest_def executeCommandLine_def
  by (simp add: Let_def setLocale_at78)

subsection \<open>The build redirect\<close>

lemma char_of_minus: "char_of (45::nat) = CHR ''-''"
  by code_simp

lemma toLowerCaseChar_of_minus: "toLowerCaseChar CHR ''-'' = CHR ''-''"
  by code_simp

lemma toLowerCaseChar_minus: "toLowerCaseChar c = CHR ''b'' \<Longrightarrow> c \<noteq> CHR ''-''"
  using toLowerCaseChar_of_minus by auto

lemma build_name_shape:
  assumes "toLowerCase nm = ''build'' \<or> toLowerCase nm = ''b''"
  shows "\<exists>c cs. nm = c # cs \<and> c \<noteq> CHR ''-''"
  using assms by (cases nm) (auto simp add: toLowerCase_def dest: toLowerCaseChar_minus)

lemma firstArgumentIsBuild_one:
  assumes "toLowerCase nm = ''build'' \<or> toLowerCase nm = ''b''"
  shows "firstArgumentIsBuild ((CHR ''-'' # nm) # rest)"
proof -
  from build_name_shape [OF assms] obtain c cs where nm: "nm = c # cs" and c: "c \<noteq> CHR ''-''"
    by blast
  have "of_char c \<noteq> (45::nat)"
  proof
    assume "of_char c = (45::nat)"
    then have "char_of (of_char c :: nat) = (char_of (45::nat) :: char)" by simp
    then show False using c by (simp add: char_of_minus)
  qed
  then show ?thesis
    using assms nm
    by (simp add: firstArgumentIsBuild_def charCodeAt_def CharacterCodes_minus_def)
qed

lemma firstArgumentIsBuild_two:
  assumes "toLowerCase nm = ''build'' \<or> toLowerCase nm = ''b''"
  shows "firstArgumentIsBuild ((CHR ''-'' # CHR ''-'' # nm) # rest)"
  using assms
  by (simp add: firstArgumentIsBuild_def charCodeAt_def CharacterCodes_minus_def)

lemma performBuild_events:
  "\<exists>evs. events (performBuild h args s) = events s @ evs \<and> (\<forall>e \<in> set evs. ofBuildDispatcher e)"
  by (auto simp add: performBuild_def Let_def reportWatchModeWithoutSysSupport_def
      split: prod.splits sum.splits if_splits)

text \<open>
  Claim C1. When the first argument is one or two minus signs followed by a name that
  \<^verbatim>\<open>toLowerCase\<close> maps to \<^verbatim>\<open>build\<close> or \<^verbatim>\<open>b\<close>, \<^verbatim>\<open>executeCommandLine\<close> is
  \<^verbatim>\<open>performBuild\<close> on the remaining arguments, whatever these are: the final state is the
  one of the build dispatcher, the events of the past are kept, and every event of the run
  is one of the build dispatcher's (so the arguments are not parsed by \<^verbatim>\<open>parseCommandLine\<close>,
  and none of the later tests of the mode resolver runs).
\<close>

theorem build_first_redirects:
  assumes "toLowerCase nm = ''build'' \<or> toLowerCase nm = ''b''"
    and "first = CHR ''-'' # nm \<or> first = CHR ''-'' # CHR ''-'' # nm"
  shows "executeCommandLine h (first # rest) s = performBuild h rest s
     \<and> take (length (events s)) (events (executeCommandLine h (first # rest) s)) = events s
     \<and> (\<forall>e \<in> set (newEvents s (executeCommandLine h (first # rest) s)). ofBuildDispatcher e)"
proof -
  have "firstArgumentIsBuild (first # rest)"
    using assms firstArgumentIsBuild_one firstArgumentIsBuild_two by blast
  then have run: "executeCommandLine h (first # rest) s = performBuild h rest s"
    by (simp add: executeCommandLine_def)
  obtain evs where evs: "events (performBuild h rest s) = events s @ evs"
    and ok: "\<forall>e \<in> set evs. ofBuildDispatcher e"
    using performBuild_events by blast
  show ?thesis using run evs ok by simp
qed

lemma sample_build_name: "toLowerCase ''BuiLD'' = ''build'' \<or> toLowerCase ''BuiLD'' = ''b''"
  by code_simp

lemma sample_performBuild_clean:
  "events (performBuild sampleHost [''--clean'', ''proj''] initialState) =
     [ParseBuildCommand [''--clean'', ''proj''],
      CreateSolutionBuilder [''proj'']
        \<lparr>helpB = False, cleanB = True, watchB = False, prettyB = None\<rparr>
        (DiagnosticReporter 0 False) False False,
      CleanAllProjects,
      Exit Success]"
  by (simp add: performBuild_def sampleHost_def initialState_def Let_def
      updateReportDiagnostic_def shouldBePretty_def defaultIsPretty_def
      createReportErrorSummary_def)

theorem build_first_redirects_witness:
  "(toLowerCase ''BuiLD'' = ''build'' \<or> toLowerCase ''BuiLD'' = ''b'')
   \<and> events (executeCommandLine sampleHost [''--BuiLD'', ''--clean'', ''proj''] initialState) =
       [ParseBuildCommand [''--clean'', ''proj''],
        CreateSolutionBuilder [''proj'']
          \<lparr>helpB = False, cleanB = True, watchB = False, prettyB = None\<rparr>
          (DiagnosticReporter 0 False) False False,
        CleanAllProjects,
        Exit Success]"
  using build_first_redirects [OF sample_build_name, of "''--BuiLD''" sampleHost
      "[''--clean'', ''proj'']" initialState]
    sample_build_name sample_performBuild_clean
  by simp

subsection \<open>The build option elsewhere on the command line\<close>

text \<open>
  Claim C6. When the build redirect is not taken and the parsed options have
  \<^verbatim>\<open>build\<close> set, the run parses the arguments, reports exactly one diagnostic (that the
  option must be the first argument) through the bound reporter and exits with
  \<^verbatim>\<open>DiagnosticsPresent_OutputsSkipped\<close>; nothing else happens: no locale is set, no other
  error is reported, no mode is selected.
\<close>

theorem build_not_first_is_rejected:
  assumes "\<not> firstArgumentIsBuild args" and "build (options (parseCommandLine h args))"
  shows "events (executeCommandLine h args s) =
           events s @ [ParseCommandLine args,
                       Reported (reportDiagnostic s)
                         (createCompilerDiagnostic Option_build_must_be_the_first_command_line_argument []),
                       Exit DiagnosticsPresent_OutputsSkipped]
     \<and> exitCode (executeCommandLine h args s) = Some DiagnosticsPresent_OutputsSkipped"
  using assms by (simp add: executeCommandLine_def Let_def)

lemma sample_build_second: "build (options (parseCommandLine sampleHost [''a.ts'', ''--build'']))"
  by (simp add: sampleHost_def noOptions_def)

lemma sample_not_first: "\<not> firstArgumentIsBuild [''a.ts'', ''--build'']"
  by (simp add: firstArgumentIsBuild_def charCodeAt_def CharacterCodes_minus_def)

theorem build_not_first_is_rejected_witness:
  "\<not> firstArgumentIsBuild [''a.ts'', ''--build'']
   \<and> build (options (parseCommandLine sampleHost [''a.ts'', ''--build'']))
   \<and> events (executeCommandLine sampleHost [''a.ts'', ''--build''] initialState) =
       [ParseCommandLine [''a.ts'', ''--build''],
        Reported (DiagnosticReporter 0 False)
          (createCompilerDiagnostic Option_build_must_be_the_first_command_line_argument []),
        Exit DiagnosticsPresent_OutputsSkipped]
   \<and> exitCode (executeCommandLine sampleHost [''a.ts'', ''--build''] initialState)
       = Some DiagnosticsPresent_OutputsSkipped"
  using build_not_first_is_rejected [OF sample_not_first sample_build_second, of initialState]
    sample_not_first sample_build_second
  by (simp add: initialState_def)

subsection \<open>The statistics table\<close>

lemma padLeft_leftPad: "padLeft str width = leftPad str width"
proof (induction str width rule: padLeft.induct)
  case (1 s len)
  show ?case
  proof (cases "length s < len")
    case True
    then have "len - length s = Suc (len - Suc (length s))" by simp
    with True "1" show ?thesis
      by (simp add: padLeft.simps [of s len] leftPad_def replicate_app_Cons_same)
  next
    case False
    then show ?thesis by (simp add: padLeft.simps [of s len] leftPad_def)
  qed
qed

lemma padRight_rightPad: "padRight str width = rightPad str width"
proof (induction str width rule: padRight.induct)
  case (1 s len)
  show ?case
  proof (cases "length s < len")
    case True
    then have "len - length s = Suc (len - Suc (length s))" by simp
    with True "1" show ?thesis
      by (simp add: padRight.simps [of s len] rightPad_def)
  next
    case False
    then show ?thesis by (simp add: padRight.simps [of s len] rightPad_def)
  qed
qed

lemma sizes_fold:
  "sizes statistics (nameSize, valueSize) =
     (fold max (map (\<lambda>st. length (name st)) statistics) nameSize,
      fold max (map (\<lambda>st. length (val st)) statistics) valueSize)"
proof (induction statistics arbitrary: nameSize valueSize)
  case Nil
  show ?case by simp
next
  case (Cons st rest)
  have n: "(if nameSize < length (name st) then length (name st) else nameSize)
             = max (length (name st)) nameSize"
    by (simp add: max_def)
  have v: "(if valueSize < length (val st) then length (val st) else valueSize)
             = max (length (val st)) valueSize"
    by (simp add: max_def)
  show ?case by (simp add: Cons.IH n v)
qed

lemma sizes_widths:
  assumes "statistics \<noteq> []"
  shows "sizes statistics (0, 0) = (nameWidth statistics, valueWidth statistics)"
proof -
  obtain st rest where st: "statistics = st # rest"
    using assms by (cases statistics) auto
  show ?thesis
    by (simp add: st sizes_fold nameWidth_def valueWidth_def Max.set_eq_fold
        del: sizes.simps set_simps)
qed

lemma writeRows_state:
  "writeRows h nameSize valueSize statistics s =
     s\<lparr>events := events s
          @ map (\<lambda>st. Write (padRight (name st @ '':'') (nameSize + 2)
                             @ padLeft (val st) valueSize @ newLine h)) statistics\<rparr>"
  by (induction statistics arbitrary: s) (simp_all add: sysWrite_def logEvent_def)

lemma reportStatisticsInner_state:
  assumes "statistics \<noteq> []"
  shows "reportStatisticsInner h statistics s =
           s\<lparr>events := events s @ map Write (renderedRows (newLine h) statistics)\<rparr>"
  by (simp add: reportStatisticsInner_def sizes_widths [OF assms] writeRows_state
      renderedRows_def padLeft_leftPad padRight_rightPad comp_def)

lemma replicate_numeral: "replicate (numeral k) x = x # replicate (pred_numeral k) x"
  by (simp add: numeral_eq_Suc)

lemma sample_newLine: "newLine sampleHost = [CHR 0x0A]"
  by (simp add: sampleHost_def)


text \<open>
  Claim C3. For statistics that are not empty, the inner \<^verbatim>\<open>reportStatistics\<close> changes only
  the output: it writes, for each statistic in the order of collection, the name followed by
  a colon padded on the right to the greatest length of a name plus two, then the value
  padded on the left to the greatest length of a value, then the line terminator. The
  padding functions add spaces only, never cut: a string that is already as long as the width
  comes back unchanged, and the length of the result is the greater of the two.
\<close>

theorem statistics_are_rendered_aligned:
  assumes "statistics \<noteq> []"
  shows "reportStatisticsInner h statistics s =
           s\<lparr>events := events s @ map Write (renderedRows (newLine h) statistics)\<rparr>
     \<and> padRight str width = rightPad str width
     \<and> padLeft str width = leftPad str width
     \<and> (width \<le> length str \<longrightarrow> padRight str width = str \<and> padLeft str width = str)
     \<and> length (padRight str width) = max (length str) width
     \<and> length (padLeft str width) = max (length str) width"
  using reportStatisticsInner_state [OF assms]
  by (auto simp add: padLeft_leftPad padRight_rightPad leftPad_def rightPad_def)

theorem statistics_are_rendered_aligned_witness:
  "[\<lparr>name = ''Files'', val = ''3''\<rparr>, \<lparr>name = ''Lines'', val = ''120''\<rparr>] \<noteq> []
   \<and> events (reportStatisticsInner sampleHost
                [\<lparr>name = ''Files'', val = ''3''\<rparr>, \<lparr>name = ''Lines'', val = ''120''\<rparr>] initialState)
       = [Write (''Files:   3'' @ [CHR 0x0A]), Write (''Lines: 120'' @ [CHR 0x0A])]
   \<and> (3::nat) \<le> length ''120''
   \<and> padRight ''120'' 3 = ''120'' \<and> padLeft ''120'' 3 = ''120''
   \<and> padRight ''Files:'' 7 = ''Files: '' \<and> padLeft ''3'' 3 = ''  3''"
  using statistics_are_rendered_aligned
      [of "[\<lparr>name = ''Files'', val = ''3''\<rparr>, \<lparr>name = ''Lines'', val = ''120''\<rparr>]"
          sampleHost initialState "''120''" 3]
    statistics_are_rendered_aligned
      [of "[\<lparr>name = ''Files'', val = ''3''\<rparr>]" sampleHost initialState "''Files:''" 7]
    statistics_are_rendered_aligned
      [of "[\<lparr>name = ''Files'', val = ''3''\<rparr>]" sampleHost initialState "''3''" 3]
  by (simp add: renderedRows_def nameWidth_def valueWidth_def rightPad_def leftPad_def
      sample_newLine initialState_def replicate_numeral)





















subsection \<open>Where a run stands: lemmas\<close>

lemma events_stateAt78:
  "events (stateAt78 h args s) =
     events s @ ParseCommandLine args
       # (if truthy (locale' (options (parseCommandLine h args)))
          then [ValidateLocaleAndSetLanguage (valueOf (locale' (options (parseCommandLine h args))))]
          else [])"
  by (simp add: stateAt78_def setLocale_def)

lemma reporter_stateAt78 [simp]: "reportDiagnostic (stateAt78 h args s) = reportDiagnostic s"
  by (simp add: stateAt78_def setLocale_def)

lemma options_commandLineAt78 [simp]:
  "options (commandLineAt78 h args) = options (parseCommandLine h args)"
  by (simp add: commandLineAt78_def setLocale_def)

lemma fileNames_commandLineAt78 [simp]:
  "fileNames (commandLineAt78 h args) = fileNames (parseCommandLine h args)"
  by (simp add: commandLineAt78_def setLocale_def)

lemma reportersCreated_logEvent [simp]: "reportersCreated (logEvent e s) = reportersCreated s"
  by (simp add: logEvent_def)

lemmas sample_run =
  reachesProjectTest_def reachesInitTest_def firstArgumentIsBuild_def charCodeAt_def
  CharacterCodes_minus_def toLowerCase_def toLowerCaseChar_def Let_def
  commandLineAt78_def stateAt78_def setLocale_def truthy_def valueOf_def
  sampleHost_def noOptions_def initialState_def

lemmas sample_project =
  projectConfigFile_def projectIsDirectory_def projectPath_def projectProbes_def

subsection \<open>Rebinding the reporter\<close>

lemma plainReporterBound_initialState: "plainReporterBound initialState"
  by (simp add: plainReporterBound_def initialState_def)

lemma plainReporterBound_logEvent:
  "plainReporterBound s \<Longrightarrow> plainReporterBound (logEvent e s)"
  by (simp add: plainReporterBound_def)

lemma plainReporterBound_sysExit:
  "plainReporterBound s \<Longrightarrow> plainReporterBound (sysExit status s)"
  by (simp add: plainReporterBound_def sysExit_def logEvent_def)

lemma plainReporterBound_stateAt78:
  "plainReporterBound s \<Longrightarrow> plainReporterBound (stateAt78 h args s)"
  by (simp add: stateAt78_def setLocale_def plainReporterBound_logEvent)

lemma plainReporterBound_resolveConfigFileName:
  assumes "plainReporterBound s" and "resolveConfigFileName h commandLine s = Inr (configFileName, s')"
  shows "plainReporterBound s'"
  using assms
  by (auto simp add: resolveConfigFileName_def Let_def plainReporterBound_logEvent
      split: if_splits)

text \<open>A run creates at most one reporter: only the rebind creates one, and no path reaches
  a second rebind.\<close>

lemma created_sysExit [simp]: "reportersCreated (sysExit status s) = reportersCreated s"
  by (simp add: sysExit_def logEvent_def)

lemma created_callReportDiagnostic [simp]:
  "reportersCreated (callReportDiagnostic d s) = reportersCreated s"
  by (simp add: callReportDiagnostic_def)

lemma created_forEachReportDiagnostic [simp]:
  "reportersCreated (forEachReportDiagnostic ds s) = reportersCreated s"
  by (induction ds arbitrary: s) simp_all

lemma created_print [simp]:
  "reportersCreated (printVersion s) = reportersCreated s"
  "reportersCreated (printHelp optionList syntaxPrefix s) = reportersCreated s"
  "reportersCreated (sysWrite text s) = reportersCreated s"
  "reportersCreated (sysWriteFile path text s) = reportersCreated s"
  by (simp_all add: printVersion_def printHelp_def sysWrite_def sysWriteFile_def)

lemma created_reportStatistics [simp]:
  "reportersCreated (reportStatistics h program s) = reportersCreated s"
  by (simp add: reportStatistics_def reportStatisticsInner_def writeRows_state Let_def
      split: prod.splits)

lemma created_enableStatistics [simp]:
  "reportersCreated (enableStatistics opts s) = reportersCreated s"
  by (simp add: enableStatistics_def)

lemma created_terminal [simp]:
  "reportersCreated (performCompilation h rootNames references opts configDiagnostics s)
     = reportersCreated s"
  "reportersCreated (performIncrementalCompilation h config s) = reportersCreated s"
  "reportersCreated (createWatchOfConfigFile h config opts s) = reportersCreated s"
  "reportersCreated (createWatchOfFilesAndCompilerOptions h rootNames opts s) = reportersCreated s"
  "reportersCreated (writeConfigFile h opts rootNames s) = reportersCreated s"
  by (simp_all add: performCompilation_def performIncrementalCompilation_def
      createWatchOfConfigFile_def createWatchOfFilesAndCompilerOptions_def writeConfigFile_def
      Let_def)

lemma created_updateReportDiagnostic:
  "reportersCreated (updateReportDiagnostic h opts s) \<le> Suc (reportersCreated s)"
  by (simp add: updateReportDiagnostic_def createDiagnosticReporter_def)

lemma created_watchSupport:
  "reportWatchModeWithoutSysSupport h s = Inl s' \<Longrightarrow> reportersCreated s' = reportersCreated s"
  "reportWatchModeWithoutSysSupport h s = Inr s' \<Longrightarrow> reportersCreated s' = reportersCreated s"
  by (auto simp add: reportWatchModeWithoutSysSupport_def split: if_splits)

lemma created_performBuild:
  "reportersCreated (performBuild h args s) \<le> Suc (reportersCreated s)"
  using created_updateReportDiagnostic [of h _ "logEvent (ParseBuildCommand args) s"]
  by (auto simp add: performBuild_def Let_def
      split: prod.splits sum.splits dest!: created_watchSupport)

lemma created_resolveConfigFileName:
  "resolveConfigFileName h commandLine s = Inl s' \<Longrightarrow> reportersCreated s' = reportersCreated s"
  "resolveConfigFileName h commandLine s = Inr (configFileName, s') \<Longrightarrow>
     reportersCreated s' = reportersCreated s"
  by (auto simp add: resolveConfigFileName_def Let_def split: if_splits)

lemma created_selectMode:
  "reportersCreated (selectMode h commandLine configFileName s) \<le> Suc (reportersCreated s)"
  using created_updateReportDiagnostic [of h _ s]
    created_updateReportDiagnostic
      [of h _ "logEvent (ParseConfigFileWithSystem (valueOf configFileName) (options commandLine)) s"]
  by (auto simp add: selectMode_def Let_def
      split: option.splits sum.splits dest!: created_watchSupport)

lemma created_selectMode_from:
  "reportersCreated s' = reportersCreated s \<Longrightarrow>
     reportersCreated (selectMode h commandLine configFileName s') \<le> Suc (reportersCreated s)"
  using created_selectMode [of h commandLine configFileName s'] by simp

lemma created_stateAt78 [simp]: "reportersCreated (stateAt78 h args s) = reportersCreated s"
  by (simp add: stateAt78_def setLocale_def)

lemma created_executeCommandLine:
  "reportersCreated (executeCommandLine h args s) \<le> Suc (reportersCreated s)"
proof (cases "firstArgumentIsBuild args")
  case True
  then show ?thesis by (simp add: executeCommandLine_def created_performBuild)
next
  case False
  show ?thesis
    using False
    by (auto simp add: executeCommandLine_def Let_def setLocale_at78
        split: sum.splits prod.splits dest!: created_resolveConfigFileName
        intro!: created_selectMode_from)
qed

text \<open>
  Claim C5. Let a plain reporter be bound, one of those created so far. That is the state of
  every rebind of a run: the process starts in it, the steps of \<^verbatim>\<open>executeCommandLine\<close> and
  \<^verbatim>\<open>performBuild\<close> before a rebind (recording an event, parsing, setting the locale,
  resolving the configuration file) keep it, and a run creates at most one reporter. Then
  \<^verbatim>\<open>updateReportDiagnostic\<close> binds another reporter if and only if the computed prettiness
  differs from the prettiness of the bound reporter. When it differs, the reporter bound
  afterwards is a new one, with the computed prettiness; when it does not, the state is
  unchanged. Either way the prettiness bound afterwards is the computed one, and no event is
  caused, so no diagnostic is reported again. The computed prettiness is
  \<^verbatim>\<open>options.pretty\<close> when that is set, else the answer of the host's probe of the terminal,
  and false when the host has no probe.
\<close>

theorem rebind_when_prettiness_differs:
  assumes "plainReporterBound s"
  shows "((reportDiagnostic (updateReportDiagnostic h opts s) \<noteq> reportDiagnostic s)
            = (shouldBePretty h opts \<noteq> isPretty (reportDiagnostic s)))
     \<and> (shouldBePretty h opts \<noteq> isPretty (reportDiagnostic s) \<longrightarrow>
          updateReportDiagnostic h opts s =
            s\<lparr>reportDiagnostic := DiagnosticReporter (reportersCreated s) (shouldBePretty h opts),
              reportersCreated := Suc (reportersCreated s)\<rparr>)
     \<and> (shouldBePretty h opts = isPretty (reportDiagnostic s) \<longrightarrow>
          updateReportDiagnostic h opts s = s)
     \<and> isPretty (reportDiagnostic (updateReportDiagnostic h opts s)) = shouldBePretty h opts
     \<and> events (updateReportDiagnostic h opts s) = events s
     \<and> shouldBePretty h None = (case writeOutputIsTTY h of Some tty \<Rightarrow> tty | None \<Rightarrow> False)
     \<and> shouldBePretty h (Some os) =
          (case prettyOf os of
             Some p \<Rightarrow> p
           | None \<Rightarrow> (case writeOutputIsTTY h of Some tty \<Rightarrow> tty | None \<Rightarrow> False))
     \<and> plainReporterBound (logEvent e s)
     \<and> plainReporterBound (stateAt78 h args s)
     \<and> (\<forall>commandLine configFileName s'.
           resolveConfigFileName h commandLine s = Inr (configFileName, s') \<longrightarrow>
             plainReporterBound s')
     \<and> reportersCreated (executeCommandLine h args s) \<le> Suc (reportersCreated s)"
  using assms plainReporterBound_logEvent [OF assms, of e] created_executeCommandLine [of h args s]
    plainReporterBound_stateAt78 [OF assms, of h args]
    plainReporterBound_resolveConfigFileName [OF assms, of h]
  by (cases "reportDiagnostic s")
     (auto simp add: plainReporterBound_def updateReportDiagnostic_def
        createDiagnosticReporter_def shouldBePretty_def defaultIsPretty_def
        split: option.splits)

lemma sample_resolved_plain:
  "resolveConfigFileName sampleHost
       (commandLineAt78 sampleHost [''--project'', ''proj'']) initialState
     = Inr (Some ''proj/tsconfig.json'',
            initialState\<lparr>events := [DirectoryExists ''proj'', FileExists ''proj/tsconfig.json'']\<rparr>)"
  by (simp add: resolveConfigFileName_def logEvent_def sample_run)

theorem rebind_when_prettiness_differs_witness:
  "plainReporterBound initialState
   \<and> shouldBePretty sampleHost (Some (OfCompiler (noOptions\<lparr>pretty := Some True\<rparr>)))
       \<noteq> isPretty (reportDiagnostic initialState)
   \<and> updateReportDiagnostic sampleHost (Some (OfCompiler (noOptions\<lparr>pretty := Some True\<rparr>))) initialState
       = initialState\<lparr>reportDiagnostic := DiagnosticReporter 1 True, reportersCreated := 2\<rparr>
   \<and> shouldBePretty sampleHost (Some (OfCompiler noOptions)) = isPretty (reportDiagnostic initialState)
   \<and> updateReportDiagnostic sampleHost (Some (OfCompiler noOptions)) initialState = initialState
   \<and> plainReporterBound
       (initialState\<lparr>events := [DirectoryExists ''proj'', FileExists ''proj/tsconfig.json'']\<rparr>)"
proof -
  note pretty = rebind_when_prettiness_differs [OF plainReporterBound_initialState,
      of sampleHost "Some (OfCompiler (noOptions\<lparr>pretty := Some True\<rparr>))"
         "OfCompiler (noOptions\<lparr>pretty := Some True\<rparr>)"]
  note plain = rebind_when_prettiness_differs [OF plainReporterBound_initialState,
      of sampleHost "Some (OfCompiler noOptions)" "OfCompiler noOptions"]
  have differs: "shouldBePretty sampleHost (Some (OfCompiler (noOptions\<lparr>pretty := Some True\<rparr>)))
       \<noteq> isPretty (reportDiagnostic initialState)"
    by (simp add: shouldBePretty_def noOptions_def initialState_def)
  have same: "shouldBePretty sampleHost (Some (OfCompiler noOptions))
       = isPretty (reportDiagnostic initialState)"
    by (simp add: shouldBePretty_def defaultIsPretty_def noOptions_def initialState_def sampleHost_def)
  have shown: "shouldBePretty sampleHost (Some (OfCompiler (noOptions\<lparr>pretty := Some True\<rparr>)))"
    by (simp add: shouldBePretty_def noOptions_def)
  have "updateReportDiagnostic sampleHost (Some (OfCompiler (noOptions\<lparr>pretty := Some True\<rparr>))) initialState
       = initialState\<lparr>reportDiagnostic := DiagnosticReporter 1 True, reportersCreated := 2\<rparr>"
    using pretty differs shown by (simp add: initialState_def)
  moreover have "updateReportDiagnostic sampleHost (Some (OfCompiler noOptions)) initialState = initialState"
    using plain same by simp
  moreover have "plainReporterBound
       (initialState\<lparr>events := [DirectoryExists ''proj'', FileExists ''proj/tsconfig.json'']\<rparr>)"
    using pretty sample_resolved_plain by blast
  ultimately show ?thesis
    using plainReporterBound_initialState differs same by simp
qed

subsection \<open>The capabilities that a build needs\<close>

text \<open>
  Claim C9, as the code has it. When the build command line has no errors, does not ask for
  help and names a project, and the host cannot read or cannot write modification times, or
  \<^verbatim>\<open>clean\<close> is asked for and the host cannot delete files, then \<^verbatim>\<open>performBuild\<close> parses,
  reports one diagnostic, that the host does not support the option \<^verbatim>\<open>--build\<close> (in each of
  the three cases), through the reporter that the rebind has left, and exits with
  \<^verbatim>\<open>DiagnosticsPresent_OutputsSkipped\<close>; no solution builder is created, nothing is built or
  cleaned.
\<close>

theorem build_needs_the_host:
  assumes "parseBuildCommand h args = (buildOptions, projects, errs)"
    and "errs = []" and "\<not> helpB buildOptions" and "projects \<noteq> []"
    and "\<not> hasGetModifiedTime h \<or> \<not> hasSetModifiedTime h \<or> (cleanB buildOptions \<and> \<not> hasDeleteFile h)"
  shows "events (performBuild h args s) =
           events s
             @ [ParseBuildCommand args,
                Reported (reportDiagnostic (updateReportDiagnostic h (Some (OfBuild buildOptions)) s))
                  (createCompilerDiagnostic The_current_host_does_not_support_the_0_option [''--build'']),
                Exit DiagnosticsPresent_OutputsSkipped]
     \<and> exitCode (performBuild h args s) = Some DiagnosticsPresent_OutputsSkipped"
  using assms
  by (auto simp add: performBuild_def Let_def updateReportDiagnostic_def createDiagnosticReporter_def)

lemma sample_build_parse:
  "parseBuildCommand (sampleHost\<lparr>hasDeleteFile := False\<rparr>) [''--clean'', ''proj'']
     = (\<lparr>helpB = False, cleanB = True, watchB = False, prettyB = None\<rparr>, [''proj''], [])"
  by (simp add: sampleHost_def)

theorem build_needs_the_host_witness:
  "parseBuildCommand (sampleHost\<lparr>hasDeleteFile := False\<rparr>) [''--clean'', ''proj'']
     = (\<lparr>helpB = False, cleanB = True, watchB = False, prettyB = None\<rparr>, [''proj''], [])
   \<and> cleanB \<lparr>helpB = False, cleanB = True, watchB = False, prettyB = None\<rparr>
   \<and> \<not> hasDeleteFile (sampleHost\<lparr>hasDeleteFile := False\<rparr>)
   \<and> events (performBuild (sampleHost\<lparr>hasDeleteFile := False\<rparr>) [''--clean'', ''proj''] initialState) =
       [ParseBuildCommand [''--clean'', ''proj''],
        Reported (DiagnosticReporter 0 False)
          (createCompilerDiagnostic The_current_host_does_not_support_the_0_option [''--build'']),
        Exit DiagnosticsPresent_OutputsSkipped]
   \<and> exitCode (performBuild (sampleHost\<lparr>hasDeleteFile := False\<rparr>) [''--clean'', ''proj''] initialState)
       = Some DiagnosticsPresent_OutputsSkipped"
  using build_needs_the_host [OF sample_build_parse, of initialState] sample_build_parse
  by (simp add: updateReportDiagnostic_def shouldBePretty_def defaultIsPretty_def
      sampleHost_def initialState_def)

text \<open>
  Claim C9 as stated, that the diagnostic names the option that is not supported, fails
  where only the deletion of files is missing: the host builds the project without
  \<^verbatim>\<open>--clean\<close>, so \<^verbatim>\<open>--build\<close> is supported, and with \<^verbatim>\<open>--clean\<close> the diagnostic names
  \<^verbatim>\<open>--build\<close> all the same.
\<close>

theorem build_names_build_counterexample:
  "events (performBuild (sampleHost\<lparr>hasDeleteFile := False\<rparr>) [''--clean'', ''proj''] initialState) =
     [ParseBuildCommand [''--clean'', ''proj''],
      Reported (DiagnosticReporter 0 False)
        (createCompilerDiagnostic The_current_host_does_not_support_the_0_option [''--build'']),
      Exit DiagnosticsPresent_OutputsSkipped]
   \<and> events (performBuild (sampleHost\<lparr>hasDeleteFile := False\<rparr>) [''proj''] initialState) =
     [ParseBuildCommand [''proj''],
      CreateSolutionBuilder [''proj'']
        \<lparr>helpB = False, cleanB = False, watchB = False, prettyB = None\<rparr>
        (DiagnosticReporter 0 False) False False,
      BuildAllProjects,
      Exit Success]"
  by (simp add: performBuild_def sampleHost_def initialState_def Let_def
      updateReportDiagnostic_def shouldBePretty_def defaultIsPretty_def
      createReportErrorSummary_def)

subsection \<open>Scaffolding\<close>

text \<open>
  Claim C10. When the test of \<^verbatim>\<open>init\<close> is reached and \<^verbatim>\<open>init\<close> is set, the run exits with
  \<^verbatim>\<open>Success\<close> whether or not \<^verbatim>\<open>tsconfig.json\<close> exists in the current directory. When it
  exists, the run probes it, reports that it is already defined and writes no file; when it
  does not, the run probes it, writes the generated text to it and reports the creation.
\<close>

theorem init_exits_with_success:
  assumes "reachesInitTest h args" and "init (options (parseCommandLine h args))"
  shows "exitCode (executeCommandLine h args s) = Some Success
     \<and> (fileExists h (normalizePath h (combinePaths h (getCurrentDirectory h) ''tsconfig.json'')) \<longrightarrow>
          events (executeCommandLine h args s) =
            events (stateAt78 h args s)
              @ [FileExists (normalizePath h (combinePaths h (getCurrentDirectory h) ''tsconfig.json'')),
                 Reported (reportDiagnostic s)
                   (createCompilerDiagnostic A_tsconfig_json_file_is_already_defined_at_Colon_0
                      [normalizePath h (combinePaths h (getCurrentDirectory h) ''tsconfig.json'')]),
                 Exit Success])
     \<and> (\<not> fileExists h (normalizePath h (combinePaths h (getCurrentDirectory h) ''tsconfig.json'')) \<longrightarrow>
          events (executeCommandLine h args s) =
            events (stateAt78 h args s)
              @ [FileExists (normalizePath h (combinePaths h (getCurrentDirectory h) ''tsconfig.json'')),
                 WriteFile (normalizePath h (combinePaths h (getCurrentDirectory h) ''tsconfig.json''))
                   (generateTSConfig h (options (parseCommandLine h args))
                      (fileNames (parseCommandLine h args)) (newLine h)),
                 Reported (reportDiagnostic s)
                   (createCompilerDiagnostic Successfully_created_a_tsconfig_json_file []),
                 Exit Success])"
  using assms
  by (simp add: executeCommandLine_at_init writeConfigFile_def Let_def)

lemma sample_init_reaches: "reachesInitTest sampleHost [''--init'']"
  by (simp add: sample_run)

lemma sample_init_set: "init (options (parseCommandLine sampleHost [''--init'']))"
  by (simp add: sample_run)

lemma sample_init_reaches': "reachesInitTest (sampleHost\<lparr>fileExists := \<lambda>path. True\<rparr>) [''--init'']"
  by (simp add: sample_run)

lemma sample_init_set':
  "init (options (parseCommandLine (sampleHost\<lparr>fileExists := \<lambda>path. True\<rparr>) [''--init'']))"
  by (simp add: sample_run)

theorem init_exits_with_success_witness:
  "reachesInitTest sampleHost [''--init'']
   \<and> init (options (parseCommandLine sampleHost [''--init'']))
   \<and> events (executeCommandLine sampleHost [''--init''] initialState) =
       [ParseCommandLine [''--init''],
        FileExists ''/work/tsconfig.json'',
        WriteFile ''/work/tsconfig.json'' (''{}'' @ [CHR 0x0A]),
        Reported (DiagnosticReporter 0 False)
          (createCompilerDiagnostic Successfully_created_a_tsconfig_json_file []),
        Exit Success]
   \<and> exitCode (executeCommandLine sampleHost [''--init''] initialState) = Some Success
   \<and> events (executeCommandLine (sampleHost\<lparr>fileExists := \<lambda>path. True\<rparr>) [''--init''] initialState) =
       [ParseCommandLine [''--init''],
        FileExists ''/work/tsconfig.json'',
        Reported (DiagnosticReporter 0 False)
          (createCompilerDiagnostic A_tsconfig_json_file_is_already_defined_at_Colon_0
             [''/work/tsconfig.json'']),
        Exit Success]
   \<and> exitCode (executeCommandLine (sampleHost\<lparr>fileExists := \<lambda>path. True\<rparr>) [''--init''] initialState)
       = Some Success"
  using init_exits_with_success [OF sample_init_reaches sample_init_set, of initialState]
    init_exits_with_success [OF sample_init_reaches' sample_init_set', of initialState]
    sample_init_reaches sample_init_set
  by (simp add: events_stateAt78 sample_run)

subsection \<open>The project option\<close>

text \<open>
  Claim C7, as the code has it. When the test of \<^verbatim>\<open>project\<close> is reached (no build redirect,
  \<^verbatim>\<open>build\<close> not set, no errors, none of \<^verbatim>\<open>init\<close>, \<^verbatim>\<open>version\<close>, \<^verbatim>\<open>help\<close>, \<^verbatim>\<open>all\<close> set) and
  \<^verbatim>\<open>project\<close> is set: with file names on the command line, the run reports that the option
  cannot be mixed with source files and exits with \<^verbatim>\<open>DiagnosticsPresent_OutputsSkipped\<close>,
  with no probe of the file system and no configuration parsed; with no file names, the
  value is resolved to the default configuration file of a directory or to the path itself,
  and when that file does not exist the run reports one diagnostic and exits with
  \<^verbatim>\<open>DiagnosticsPresent_OutputsSkipped\<close>, and when it exists the run goes on to select a mode
  with that configuration file.
\<close>

theorem project_is_resolved_or_rejected:
  assumes "reachesProjectTest h args"
    and "truthy (project (options (parseCommandLine h args)))"
  shows "(fileNames (parseCommandLine h args) \<noteq> [] \<longrightarrow>
            events (executeCommandLine h args s) =
              events (stateAt78 h args s)
                @ [Reported (reportDiagnostic s)
                     (createCompilerDiagnostic
                        Option_project_cannot_be_mixed_with_source_files_on_a_command_line []),
                   Exit DiagnosticsPresent_OutputsSkipped]
            \<and> exitCode (executeCommandLine h args s) = Some DiagnosticsPresent_OutputsSkipped)
     \<and> (fileNames (parseCommandLine h args) = []
          \<and> \<not> fileExists h (projectConfigFile h (commandLineAt78 h args)) \<longrightarrow>
            events (executeCommandLine h args s) =
              events (stateAt78 h args s) @ projectProbes h (commandLineAt78 h args)
                @ [Reported (reportDiagnostic s)
                     (createCompilerDiagnostic
                        (if projectIsDirectory h (commandLineAt78 h args)
                         then Cannot_find_a_tsconfig_json_file_at_the_specified_directory_Colon_0
                         else The_specified_path_does_not_exist_Colon_0)
                        [valueOf (project (options (parseCommandLine h args)))]),
                   Exit DiagnosticsPresent_OutputsSkipped]
            \<and> exitCode (executeCommandLine h args s) = Some DiagnosticsPresent_OutputsSkipped)
     \<and> (fileNames (parseCommandLine h args) = []
          \<and> fileExists h (projectConfigFile h (commandLineAt78 h args)) \<longrightarrow>
            (\<exists>s'. resolveConfigFileName h (commandLineAt78 h args) (stateAt78 h args s)
                     = Inr (Some (projectConfigFile h (commandLineAt78 h args)), s')
                 \<and> events s' = events (stateAt78 h args s) @ projectProbes h (commandLineAt78 h args)
                 \<and> (projectConfigFile h (commandLineAt78 h args) \<noteq> [] \<longrightarrow>
                      executeCommandLine h args s =
                        selectMode h (commandLineAt78 h args)
                          (Some (projectConfigFile h (commandLineAt78 h args))) s')))"
  using assms
  by (auto simp add: executeCommandLine_at_project resolveConfigFileName_def Let_def
      projectConfigFile_def projectIsDirectory_def projectPath_def projectProbes_def truthy_def)

lemma sample_mixed_reaches: "reachesProjectTest sampleHost [''--project'', ''proj'', ''a.ts'']"
  by (simp add: sample_run)

lemma sample_mixed_project:
  "truthy (project (options (parseCommandLine sampleHost [''--project'', ''proj'', ''a.ts''])))"
  by (simp add: sample_run)

lemma sample_missing_reaches: "reachesProjectTest sampleHost [''--project'', ''other'']"
  by (simp add: sample_run)

lemma sample_missing_project:
  "truthy (project (options (parseCommandLine sampleHost [''--project'', ''other''])))"
  by (simp add: sample_run)

lemma sample_found_reaches: "reachesProjectTest sampleHost [''--project'', ''proj'']"
  by (simp add: sample_run)

lemma sample_found_project:
  "truthy (project (options (parseCommandLine sampleHost [''--project'', ''proj''])))"
  by (simp add: sample_run)

theorem project_is_resolved_or_rejected_witness:
  "reachesProjectTest sampleHost [''--project'', ''proj'', ''a.ts'']
   \<and> truthy (project (options (parseCommandLine sampleHost [''--project'', ''proj'', ''a.ts''])))
   \<and> events (executeCommandLine sampleHost [''--project'', ''proj'', ''a.ts''] initialState) =
       [ParseCommandLine [''--project'', ''proj'', ''a.ts''],
        Reported (DiagnosticReporter 0 False)
          (createCompilerDiagnostic
             Option_project_cannot_be_mixed_with_source_files_on_a_command_line []),
        Exit DiagnosticsPresent_OutputsSkipped]
   \<and> events (executeCommandLine sampleHost [''--project'', ''other''] initialState) =
       [ParseCommandLine [''--project'', ''other''],
        DirectoryExists ''other'',
        FileExists ''other'',
        Reported (DiagnosticReporter 0 False)
          (createCompilerDiagnostic The_specified_path_does_not_exist_Colon_0 [''other'']),
        Exit DiagnosticsPresent_OutputsSkipped]
   \<and> projectConfigFile sampleHost (commandLineAt78 sampleHost [''--project'', ''proj''])
       = ''proj/tsconfig.json''
   \<and> fileExists sampleHost ''proj/tsconfig.json''
   \<and> executeCommandLine sampleHost [''--project'', ''proj''] initialState =
       selectMode sampleHost (commandLineAt78 sampleHost [''--project'', ''proj''])
         (Some ''proj/tsconfig.json'')
         (initialState\<lparr>events := [ParseCommandLine [''--project'', ''proj''],
                                   DirectoryExists ''proj'', FileExists ''proj/tsconfig.json'']\<rparr>)"
proof -
  have cfg: "projectConfigFile sampleHost (commandLineAt78 sampleHost [''--project'', ''proj''])
       = ''proj/tsconfig.json''"
    by (simp add: sample_project sample_run)
  have resolved: "resolveConfigFileName sampleHost (commandLineAt78 sampleHost [''--project'', ''proj''])
         (stateAt78 sampleHost [''--project'', ''proj''] initialState)
       = Inr (Some ''proj/tsconfig.json'',
              initialState\<lparr>events := [ParseCommandLine [''--project'', ''proj''],
                                   DirectoryExists ''proj'', FileExists ''proj/tsconfig.json'']\<rparr>)"
    by (simp add: resolveConfigFileName_def logEvent_def sample_run)
  show ?thesis
    using project_is_resolved_or_rejected [OF sample_mixed_reaches sample_mixed_project, of initialState]
      project_is_resolved_or_rejected [OF sample_missing_reaches sample_missing_project, of initialState]
      project_is_resolved_or_rejected [OF sample_found_reaches sample_found_project, of initialState]
      sample_mixed_reaches sample_mixed_project
    apply (simp only: cfg resolved)
    apply (simp add: events_stateAt78 sample_project sample_run)
    done
qed

text \<open>
  Claim C7 as stated, for every invocation with \<^verbatim>\<open>project\<close> set and file names, fails where
  an earlier test ends the run: with \<^verbatim>\<open>version\<close> set as well, the run prints the version
  and exits with \<^verbatim>\<open>Success\<close>.
\<close>

theorem project_with_files_counterexample:
  "truthy (project (options (parseCommandLine sampleHost [''--version'', ''--project'', ''proj'', ''a.ts''])))
   \<and> fileNames (parseCommandLine sampleHost [''--version'', ''--project'', ''proj'', ''a.ts'']) \<noteq> []
   \<and> events (executeCommandLine sampleHost [''--version'', ''--project'', ''proj'', ''a.ts''] initialState)
       = [ParseCommandLine [''--version'', ''--project'', ''proj'', ''a.ts''], PrintVersion, Exit Success]
   \<and> exitCode (executeCommandLine sampleHost [''--version'', ''--project'', ''proj'', ''a.ts''] initialState)
       = Some Success"
  by (simp add: executeCommandLine_def printVersion_def sample_run)

subsection \<open>Nothing to compile\<close>

text \<open>
  Claim C8. When the test of \<^verbatim>\<open>project\<close> is reached, \<^verbatim>\<open>project\<close> is not set, there are
  no file names and the search from the current directory finds no configuration file, the
  run prints the version and the help and exits with \<^verbatim>\<open>Success\<close>.
\<close>

theorem nothing_to_compile_prints_help:
  assumes "reachesProjectTest h args"
    and "\<not> truthy (project (options (parseCommandLine h args)))"
    and "fileNames (parseCommandLine h args) = []"
    and "\<not> truthy (findConfigFile h (normalizePath h (getCurrentDirectory h)) (fileExists h))"
  shows "events (executeCommandLine h args s) =
           events (stateAt78 h args s)
             @ [FindConfigFile (normalizePath h (getCurrentDirectory h)),
                PrintVersion,
                PrintHelp (getOptionsForHelp h (commandLineAt78 h args)) None,
                Exit Success]
     \<and> exitCode (executeCommandLine h args s) = Some Success"
  using assms
  by (simp add: executeCommandLine_at_project resolveConfigFileName_def Let_def)

lemma sample_nothing_reaches: "reachesProjectTest sampleHost []"
  by (simp add: sample_run)

theorem nothing_to_compile_prints_help_witness:
  "reachesProjectTest sampleHost []
   \<and> \<not> truthy (project (options (parseCommandLine sampleHost [])))
   \<and> fileNames (parseCommandLine sampleHost []) = []
   \<and> \<not> truthy (findConfigFile sampleHost (normalizePath sampleHost (getCurrentDirectory sampleHost))
                  (fileExists sampleHost))
   \<and> events (executeCommandLine sampleHost [] initialState) =
       [ParseCommandLine [],
        FindConfigFile ''/work'',
        PrintVersion,
        PrintHelp [\<lparr>optionName = ''watch'', showInSimplifiedHelpView = True\<rparr>] None,
        Exit Success]
   \<and> exitCode (executeCommandLine sampleHost [] initialState) = Some Success"
proof -
  have a: "\<not> truthy (project (options (parseCommandLine sampleHost [])))"
    by (simp add: sample_run)
  have b: "fileNames (parseCommandLine sampleHost []) = []"
    by (simp add: sample_run)
  have c: "\<not> truthy (findConfigFile sampleHost (normalizePath sampleHost (getCurrentDirectory sampleHost))
                  (fileExists sampleHost))"
    by (simp add: sample_run)
  show ?thesis
    using nothing_to_compile_prints_help [OF sample_nothing_reaches a b c, of initialState]
      sample_nothing_reaches a b c
    by (simp add: events_stateAt78 getOptionsForHelp_def sample_run)
qed

subsection \<open>Showing the configuration\<close>

text \<open>
  Claim C2. Let a run reach line 132 with \<^verbatim>\<open>showConfig\<close> set. Without a configuration file,
  the command line has no errors, and the run writes the serialized configuration of the
  command line (indentation 4, then the line terminator) and exits with \<^verbatim>\<open>Success\<close>. With
  a configuration file whose parse has no errors, the run writes the serialized parsed
  configuration in the same way and exits with \<^verbatim>\<open>Success\<close>. With a configuration file whose
  parse has errors, the run rebinds the reporter from the options of the parse, reports every
  error in order through the reporter then bound, writes nothing and exits with
  \<^verbatim>\<open>DiagnosticsPresent_OutputsSkipped\<close>.
\<close>

theorem showConfig_prints_or_reports:
  assumes "reachesProjectTest h args"
    and "resolveConfigFileName h (commandLineAt78 h args) (stateAt78 h args s) = Inr (configFileName, s')"
    and "\<not> (fileNames (parseCommandLine h args) = [] \<and> \<not> truthy configFileName)"
    and "showConfig (options (parseCommandLine h args))"
  shows "(\<not> truthy configFileName \<longrightarrow>
            errors (commandLineAt78 h args) = []
            \<and> events (executeCommandLine h args s) =
                events s'
                  @ [Write (stringifyTSConfig h (commandLineAt78 h args)
                              (combinePaths h (getCurrentDirectory h) ''tsconfig.json'') 4
                            @ newLine h),
                     Exit Success]
            \<and> exitCode (executeCommandLine h args s) = Some Success)
     \<and> (\<forall>configParseResult.
           truthy configFileName
           \<and> parseConfigFileWithSystem h (valueOf configFileName) (options (parseCommandLine h args))
               = Some configParseResult \<longrightarrow>
             (errors configParseResult = [] \<longrightarrow>
                events (executeCommandLine h args s) =
                  events s'
                    @ [ParseConfigFileWithSystem (valueOf configFileName)
                         (options (parseCommandLine h args)),
                       Write (stringifyTSConfig h configParseResult (valueOf configFileName) 4
                              @ newLine h),
                       Exit Success]
                \<and> exitCode (executeCommandLine h args s) = Some Success)
           \<and> (errors configParseResult \<noteq> [] \<longrightarrow>
                events (executeCommandLine h args s) =
                  events s'
                    @ [ParseConfigFileWithSystem (valueOf configFileName)
                         (options (parseCommandLine h args))]
                    @ map (Reported
                             (reportDiagnostic
                                (updateReportDiagnostic h
                                   (Some (OfCompiler (options configParseResult))) s')))
                        (errors configParseResult)
                    @ [Exit DiagnosticsPresent_OutputsSkipped]
                \<and> exitCode (executeCommandLine h args s) = Some DiagnosticsPresent_OutputsSkipped))"
proof -
  have noErrors: "errors (commandLineAt78 h args) = []"
    using assms(1) by (simp add: reachesProjectTest_def reachesInitTest_def)
  have run: "executeCommandLine h args s = selectMode h (commandLineAt78 h args) configFileName s'"
    using assms(1-3) by (auto simp add: executeCommandLine_at_project)
  show ?thesis
    using assms(4) noErrors
    by (auto simp add: run selectMode_def Let_def updateReportDiagnostic_def
        createDiagnosticReporter_def)
qed

lemma sample_show_files_reaches: "reachesProjectTest sampleHost [''--showConfig'', ''a.ts'']"
  by (simp add: sample_run)

lemma sample_show_files_resolved:
  "resolveConfigFileName sampleHost (commandLineAt78 sampleHost [''--showConfig'', ''a.ts''])
       (stateAt78 sampleHost [''--showConfig'', ''a.ts''] initialState)
     = Inr (None, initialState\<lparr>events := [ParseCommandLine [''--showConfig'', ''a.ts'']]\<rparr>)"
  by (simp add: resolveConfigFileName_def logEvent_def sample_run)

lemma sample_show_files_rest:
  "\<not> (fileNames (parseCommandLine sampleHost [''--showConfig'', ''a.ts'']) = [] \<and> \<not> truthy None)"
  "showConfig (options (parseCommandLine sampleHost [''--showConfig'', ''a.ts'']))"
  by (simp_all add: sample_run)

lemma sample_show_project_reaches:
  "reachesProjectTest sampleHost [''--showConfig'', ''--project'', ''proj'']"
  "reachesProjectTest failingConfigHost [''--showConfig'', ''--project'', ''proj'']"
  by (simp_all add: failingConfigHost_def sample_run)

lemma sample_show_project_resolved:
  "resolveConfigFileName sampleHost
       (commandLineAt78 sampleHost [''--showConfig'', ''--project'', ''proj''])
       (stateAt78 sampleHost [''--showConfig'', ''--project'', ''proj''] initialState)
     = Inr (Some ''proj/tsconfig.json'',
            initialState\<lparr>events := [ParseCommandLine [''--showConfig'', ''--project'', ''proj''],
                                     DirectoryExists ''proj'', FileExists ''proj/tsconfig.json'']\<rparr>)"
  "resolveConfigFileName failingConfigHost
       (commandLineAt78 failingConfigHost [''--showConfig'', ''--project'', ''proj''])
       (stateAt78 failingConfigHost [''--showConfig'', ''--project'', ''proj''] initialState)
     = Inr (Some ''proj/tsconfig.json'',
            initialState\<lparr>events := [ParseCommandLine [''--showConfig'', ''--project'', ''proj''],
                                     DirectoryExists ''proj'', FileExists ''proj/tsconfig.json'']\<rparr>)"
  by (simp_all add: failingConfigHost_def resolveConfigFileName_def logEvent_def sample_run)

lemma sample_show_project_rest:
  "\<not> (fileNames (parseCommandLine sampleHost [''--showConfig'', ''--project'', ''proj'']) = []
      \<and> \<not> truthy (Some ''proj/tsconfig.json''))"
  "showConfig (options (parseCommandLine sampleHost [''--showConfig'', ''--project'', ''proj'']))"
  "\<not> (fileNames (parseCommandLine failingConfigHost [''--showConfig'', ''--project'', ''proj'']) = []
      \<and> \<not> truthy (Some ''proj/tsconfig.json''))"
  "showConfig (options (parseCommandLine failingConfigHost [''--showConfig'', ''--project'', ''proj'']))"
  by (simp_all add: failingConfigHost_def sample_run)

theorem showConfig_prints_or_reports_witness:
  "reachesProjectTest sampleHost [''--showConfig'', ''a.ts'']
   \<and> showConfig (options (parseCommandLine sampleHost [''--showConfig'', ''a.ts'']))
   \<and> events (executeCommandLine sampleHost [''--showConfig'', ''a.ts''] initialState) =
       [ParseCommandLine [''--showConfig'', ''a.ts''], Write (''{}'' @ [CHR 0x0A]), Exit Success]
   \<and> exitCode (executeCommandLine sampleHost [''--showConfig'', ''a.ts''] initialState) = Some Success
   \<and> events (executeCommandLine sampleHost [''--showConfig'', ''--project'', ''proj''] initialState) =
       [ParseCommandLine [''--showConfig'', ''--project'', ''proj''],
        DirectoryExists ''proj'', FileExists ''proj/tsconfig.json'',
        ParseConfigFileWithSystem ''proj/tsconfig.json''
          (noOptions\<lparr>project := Some ''proj'', showConfig := True\<rparr>),
        Write (''{}'' @ [CHR 0x0A]), Exit Success]
   \<and> exitCode (executeCommandLine sampleHost [''--showConfig'', ''--project'', ''proj''] initialState)
       = Some Success
   \<and> events (executeCommandLine failingConfigHost [''--showConfig'', ''--project'', ''proj''] initialState) =
       [ParseCommandLine [''--showConfig'', ''--project'', ''proj''],
        DirectoryExists ''proj'', FileExists ''proj/tsconfig.json'',
        ParseConfigFileWithSystem ''proj/tsconfig.json''
          (noOptions\<lparr>project := Some ''proj'', showConfig := True\<rparr>),
        Reported (DiagnosticReporter 1 True)
          (createCompilerDiagnostic (Message_of_collaborator 5014) [''proj/tsconfig.json'']),
        Reported (DiagnosticReporter 1 True)
          (createCompilerDiagnostic (Message_of_collaborator 1005) [''proj/tsconfig.json'']),
        Exit DiagnosticsPresent_OutputsSkipped]
   \<and> exitCode (executeCommandLine failingConfigHost [''--showConfig'', ''--project'', ''proj''] initialState)
       = Some DiagnosticsPresent_OutputsSkipped"
  using showConfig_prints_or_reports
      [OF sample_show_files_reaches sample_show_files_resolved sample_show_files_rest]
    showConfig_prints_or_reports
      [OF sample_show_project_reaches(1) sample_show_project_resolved(1) sample_show_project_rest(1,2)]
    showConfig_prints_or_reports
      [OF sample_show_project_reaches(2) sample_show_project_resolved(2) sample_show_project_rest(3,4)]
    sample_show_files_reaches sample_show_files_rest(2)
  by (simp add: failingConfigHost_def updateReportDiagnostic_def createDiagnosticReporter_def
      shouldBePretty_def sample_run)

end
